theory Spec2Isabelle
  imports Complex_Main "HOL-Library.Word" "HOL-Library.Log_Nat"
begin

section \<open>Conventions\<close>

text \<open>
  The development embeds the two image tools of the repository,
  \<^verbatim>\<open>tools/color_transfer.py\<close> and \<^verbatim>\<open>tools/image_preprocess.py\<close>.

  \<^item> A \<^verbatim>\<open>uint8\<close> array element is an \<open>8 word\<close>; an RGB image is the list of its
    pixels in row-major order (\<^verbatim>\<open>img.reshape(-1, 3)\<close>), or a list of rows where
    the two dimensions matter.
  \<^item> Python integers are \<open>int\<close>; lengths and array indices are \<open>nat\<close>.
  \<^item> A floating-point number is modelled by the real number it stands for, so
    \<^verbatim>\<open>float32\<close>/\<^verbatim>\<open>float64\<close> rounding of sums, products and quotients is not
    part of the model, except in the resize arithmetic of
    \<^verbatim>\<open>load_and_normalize\<close>, whose truncation to an integer is sensitive
    to the last bit and is therefore modelled with IEEE binary64
    rounding written out. NaN, where the source can produce it, is \<open>None\<close>.
  \<^item> Exceptions are values of \<open>py_error\<close>; a function that can raise returns
    \<open>py_error + 'a\<close>.
  \<^item> Functions of OpenCV, scikit-learn, scikit-image and Pillow are not part of
    the repository. They are parameters of the definitions that call them, and
    what a theorem needs of them is a hypothesis of that theorem.
\<close>

type_synonym byte = "8 word"
type_synonym rgb8 = "byte \<times> byte \<times> byte"
type_synonym fpixel = "real \<times> real \<times> real"
type_synonym ipixel = "int \<times> int \<times> int"

datatype py_error = IndexError | OverflowError | ValueError | LibraryError

text \<open>\<^verbatim>\<open>arr.astype(np.float32)\<close> on a \<^verbatim>\<open>uint8\<close> pixel.\<close>

definition astype_float :: "rgb8 \<Rightarrow> fpixel" where
  "astype_float p = (case p of (r, g, b) \<Rightarrow> (real (unat r), real (unat g), real (unat b)))"

text \<open>
  \<^verbatim>\<open>astype(int)\<close> on a float: truncation toward zero. The cast of NaN is not
  defined by NumPy (it warns and returns what the platform's conversion gives,
  \<open>- 2 ^ 63\<close> on x86-64); that integer is the parameter \<open>nan_int\<close>.
\<close>

definition trunc :: "'a :: floor_ceiling \<Rightarrow> int" where
  "trunc x = (if 0 \<le> x then \<lfloor>x\<rfloor> else \<lceil>x\<rceil>)"

definition trunc_pixel :: "fpixel \<Rightarrow> ipixel" where
  "trunc_pixel c = (case c of (r, g, b) \<Rightarrow> (trunc r, trunc g, trunc b))"

definition astype_int :: "int \<Rightarrow> fpixel option \<Rightarrow> ipixel" where
  "astype_int nan_int v =
     (case v of None \<Rightarrow> (nan_int, nan_int, nan_int) | Some c \<Rightarrow> trunc_pixel c)"

text \<open>Python's \<^verbatim>\<open>round(x, n)\<close>: to the nearest multiple of \<open>10 ^ (- n)\<close>, ties to even.\<close>

definition round_half_even :: "'a :: floor_ceiling \<Rightarrow> int" where
  "round_half_even x =
     (let f = \<lfloor>x\<rfloor>; d = x - of_int f
      in if d < 1 / 2 then f else if 1 / 2 < d then f + 1
         else if even f then f else f + 1)"

definition py_round :: "real \<Rightarrow> nat \<Rightarrow> real" where
  "py_round x n = of_int (round_half_even (x * 10 ^ n)) / 10 ^ n"

text \<open>The format specification \<^verbatim>\<open>:02x\<close>: lower-case hexadecimal, a minus sign
  for a negative number, padded with zeros to width two.\<close>

definition hex_digit :: "nat \<Rightarrow> char" where
  "hex_digit d = ''0123456789abcdef'' ! d"

fun hex_digits :: "nat \<Rightarrow> string" where
  "hex_digits n =
     (if n < 16 then [hex_digit n] else hex_digits (n div 16) @ [hex_digit (n mod 16)])"

declare hex_digits.simps [simp del]

definition fmt_02x :: "int \<Rightarrow> string" where
  "fmt_02x v =
     (let s = (if v < 0 then ''-'' else []) @ hex_digits (nat \<bar>v\<bar>)
      in replicate (2 - length s) (CHR ''0'') @ s)"

definition hexcolor :: "ipixel \<Rightarrow> string" where
  "hexcolor c = (case c of (r, g, b) \<Rightarrow> ''#'' @ fmt_02x r @ fmt_02x g @ fmt_02x b)"

section \<open>Palette extraction (\<^verbatim>\<open>extract_palette\<close>)\<close>

text \<open>
  The dictionary \<^verbatim>\<open>extract_palette\<close> returns. The key \<^verbatim>\<open>palette_details\<close>
  is present only on the k-means path, so the field is optional;
  \<^verbatim>\<open>accent\<close> is \<^verbatim>\<open>None\<close> on the fallback path.
\<close>

record palette_entry =
  hex :: string
  rgb :: ipixel
  frequency :: real

record palette =
  success :: bool
  colors :: "string list"
  palette_details :: "palette_entry list option"
  primary_background :: string
  accent :: "string option"

text \<open>What the code reads from a fitted \<^verbatim>\<open>sklearn.cluster.KMeans\<close>.\<close>

record kmeans_fit =
  cluster_centers :: "fpixel list"
  labels :: "nat list"

type_synonym kmeans = "int \<Rightarrow> fpixel list \<Rightarrow> py_error + kmeans_fit"

text \<open>\<^verbatim>\<open>pixels.mean(axis=0)\<close>: the mean of an empty array is NaN.\<close>

definition mean_axis0 :: "fpixel list \<Rightarrow> fpixel option" where
  "mean_axis0 pixels =
     (if pixels = [] then None
      else Some (sum_list (map fst pixels) / real (length pixels),
                 sum_list (map (fst \<circ> snd) pixels) / real (length pixels),
                 sum_list (map (snd \<circ> snd) pixels) / real (length pixels)))"

text \<open>\<^verbatim>\<open>Counter(labels)\<close>: the keys in order of first occurrence, each with the
  number of its occurrences (\<open>count_list labels\<close>).\<close>

definition counter_keys :: "'a list \<Rightarrow> 'a list" where
  "counter_keys xs = rev (remdups (rev xs))"

text \<open>\<^verbatim>\<open>sorted(counts.keys(), key=lambda x: counts[x], reverse=True)\<close>: a stable
  sort by decreasing count.\<close>

definition sorted_indices :: "nat list \<Rightarrow> nat list" where
  "sorted_indices lbls = sort_key (\<lambda>x. - int (count_list lbls x)) (counter_keys lbls)"

text \<open>The loop that builds \<^verbatim>\<open>colors\<close>; \<^verbatim>\<open>centers[idx]\<close> raises when out of range.\<close>

fun build_colors :: "ipixel list \<Rightarrow> nat list \<Rightarrow> nat list \<Rightarrow> py_error + palette_entry list" where
  "build_colors centers lbls [] = Inr []"
| "build_colors centers lbls (idx # rest) =
     (if idx < length centers then
        (case build_colors centers lbls rest of
           Inl e \<Rightarrow> Inl e
         | Inr cs \<Rightarrow>
             Inr (\<lparr>hex = hexcolor (centers ! idx), rgb = centers ! idx,
                   frequency = real (count_list lbls idx) / real (length lbls)\<rparr> # cs))
      else Inl IndexError)"

definition saturation :: "palette_entry \<Rightarrow> int" where
  "saturation c = (case rgb c of (r, g, b) \<Rightarrow> max r (max g b) - min r (min g b))"

text \<open>The accent loop over \<^verbatim>\<open>colors[1:]\<close>; the state is
  \<^verbatim>\<open>(accent, max_saturation)\<close>.\<close>

fun accent_loop :: "palette_entry list \<Rightarrow> string option \<times> int \<Rightarrow> string option \<times> int" where
  "accent_loop [] st = st"
| "accent_loop (c # cs) (acc, max_saturation) =
     (if saturation c > max_saturation then accent_loop cs (Some (hex c), saturation c)
      else accent_loop cs (acc, max_saturation))"

text \<open>
  \<^verbatim>\<open>accent or colors[1]["hex"] if len(colors) > 1 else primary_bg\<close>: the
  conditional expression binds weaker than \<^verbatim>\<open>or\<close>; \<^verbatim>\<open>None\<close> and the empty
  string are false.
\<close>

definition accent_result :: "string option \<Rightarrow> palette_entry list \<Rightarrow> string \<Rightarrow> string" where
  "accent_result acc cs primary_bg =
     (if length cs > 1 then
        (case acc of None \<Rightarrow> hex (cs ! 1)
         | Some a \<Rightarrow> if a \<noteq> [] then a else hex (cs ! 1))
      else primary_bg)"

text \<open>Lines 202 to 241: from the fitted clustering to the result.\<close>

definition palette_of_fit :: "kmeans_fit \<Rightarrow> py_error + palette" where
  "palette_of_fit fit =
     (let centers = map trunc_pixel (cluster_centers fit);
          lbls = labels fit
      in case build_colors centers lbls (sorted_indices lbls) of
           Inl e \<Rightarrow> Inl e
         | Inr [] \<Rightarrow> Inl IndexError
         | Inr (c0 # cs) \<Rightarrow>
             (let primary_bg = hex c0;
                  acc = fst (accent_loop cs (None, 0))
              in Inr \<lparr>success = True, colors = map hex (c0 # cs),
                      palette_details = Some (c0 # cs),
                      primary_background = primary_bg,
                      accent = Some (accent_result acc (c0 # cs) primary_bg)\<rparr>))"

text \<open>Lines 178 to 186: the pixels as floats, without the near-white and the
  near-black ones when the flags ask for it.\<close>

definition remaining_pixels :: "rgb8 list \<Rightarrow> bool \<Rightarrow> bool \<Rightarrow> fpixel list" where
  "remaining_pixels img exclude_near_white exclude_near_black =
     (let pixels = map astype_float img;
          pixels = (if exclude_near_white
                    then filter (\<lambda>(r, g, b). r < 250 \<and> g < 250 \<and> b < 250) pixels
                    else pixels);
          pixels = (if exclude_near_black
                    then filter (\<lambda>(r, g, b). r > 5 \<and> g > 5 \<and> b > 5) pixels
                    else pixels)
      in pixels)"

definition extract_palette ::
    "int \<Rightarrow> kmeans \<Rightarrow> rgb8 list \<Rightarrow> int \<Rightarrow> bool \<Rightarrow> bool \<Rightarrow> py_error + palette" where
  "extract_palette nan_int KMeans img k exclude_near_white exclude_near_black =
     (let pixels = remaining_pixels img exclude_near_white exclude_near_black
      in if int (length pixels) < k then
           (let avg = astype_int nan_int (mean_axis0 pixels)
            in Inr \<lparr>success = True, colors = [hexcolor avg], palette_details = None,
                    primary_background = hexcolor avg, accent = None\<rparr>)
         else (case KMeans k pixels of
                 Inl e \<Rightarrow> Inl e
               | Inr fit \<Rightarrow> palette_of_fit fit))"

section \<open>Colour spaces (\<^verbatim>\<open>rgb_to_lab\<close>, \<^verbatim>\<open>lab_to_rgb\<close>)\<close>

text \<open>
  OpenCV converts pixel by pixel. \<open>cvt\<close> stands for
  \<^verbatim>\<open>cv2.cvtColor(cv2.cvtColor(img, COLOR_RGB2BGR), COLOR_BGR2LAB)\<close> on one
  \<^verbatim>\<open>uint8\<close> pixel and \<open>cvt_back\<close> for the two conversions of
  \<^verbatim>\<open>lab_to_rgb\<close>. Every caller passes a three-channel array, so the removal of
  an alpha channel is not modelled.
\<close>

definition rgb_to_lab :: "(rgb8 \<Rightarrow> rgb8) \<Rightarrow> rgb8 list \<Rightarrow> fpixel list" where
  "rgb_to_lab cvt img = map (\<lambda>p. astype_float (cvt p)) img"

text \<open>\<^verbatim>\<open>np.clip(lab, 0, 255).astype(np.uint8)\<close> on one channel value.\<close>

definition clip_uint8 :: "real \<Rightarrow> byte" where
  "clip_uint8 x = word_of_int (trunc (max 0 (min 255 x)))"

definition lab_to_rgb :: "(rgb8 \<Rightarrow> rgb8) \<Rightarrow> fpixel list \<Rightarrow> rgb8 list" where
  "lab_to_rgb cvt_back lab =
     map (\<lambda>(l, a, b). cvt_back (clip_uint8 l, clip_uint8 a, clip_uint8 b)) lab"

section \<open>Reinhard colour transfer (\<^verbatim>\<open>reinhard_color_transfer\<close>)\<close>

definition chan :: "nat \<Rightarrow> fpixel \<Rightarrow> real" where
  "chan i p = (case p of (x, y, z) \<Rightarrow> if i = 0 then x else if i = 1 then y else z)"

definition set_chan :: "nat \<Rightarrow> real \<Rightarrow> fpixel \<Rightarrow> fpixel" where
  "set_chan i v p =
     (case p of (x, y, z) \<Rightarrow> if i = 0 then (v, y, z) else if i = 1 then (x, v, z) else (x, y, v))"

definition np_mean :: "real list \<Rightarrow> real" where
  "np_mean xs = sum_list xs / real (length xs)"

definition np_std :: "real list \<Rightarrow> real" where
  "np_std xs = sqrt (np_mean (map (\<lambda>x. (x - np_mean xs)\<^sup>2) xs))"

text \<open>\<^verbatim>\<open>np.mean(lab, axis=(0, 1))\<close> and \<^verbatim>\<open>np.std(lab, axis=(0, 1))\<close>. An image
  that Pillow has decoded has at least one pixel.\<close>

definition mean_axis01 :: "fpixel list \<Rightarrow> fpixel" where
  "mean_axis01 lab =
     (np_mean (map (chan 0) lab), np_mean (map (chan 1) lab), np_mean (map (chan 2) lab))"

definition std_axis01 :: "fpixel list \<Rightarrow> fpixel" where
  "std_axis01 lab =
     (np_std (map (chan 0) lab), np_std (map (chan 1) lab), np_std (map (chan 2) lab))"

text \<open>\<^verbatim>\<open>np.where(source_std < 1e-6, 1.0, source_std)\<close>.\<close>

definition floor_std :: "fpixel \<Rightarrow> fpixel" where
  "floor_std s =
     (case s of (x, y, z) \<Rightarrow>
        (if x < 1 / 10 ^ 6 then 1 else x, if y < 1 / 10 ^ 6 then 1 else y,
         if z < 1 / 10 ^ 6 then 1 else z))"

text \<open>One pass of the loop body: channel \<open>i\<close> of every pixel of \<^verbatim>\<open>result_lab\<close> is
  assigned from \<^verbatim>\<open>source_lab\<close>.\<close>

definition transfer_channel ::
    "fpixel list \<Rightarrow> fpixel \<Rightarrow> fpixel \<Rightarrow> fpixel \<Rightarrow> fpixel \<Rightarrow> fpixel list \<Rightarrow> nat \<Rightarrow> fpixel list" where
  "transfer_channel source_lab source_mean source_std target_mean target_std result_lab i =
     map2 (\<lambda>s r. set_chan i ((chan i s - chan i source_mean) *
                               (chan i target_std / chan i source_std) + chan i target_mean) r)
       source_lab result_lab"

definition reinhard_lab :: "bool \<Rightarrow> fpixel list \<Rightarrow> fpixel list \<Rightarrow> fpixel list" where
  "reinhard_lab preserve_luminance source_lab target_lab =
     (let source_mean = mean_axis01 source_lab;
          source_std = std_axis01 source_lab;
          target_mean = mean_axis01 target_lab;
          target_std = std_axis01 target_lab;
          source_std = floor_std source_std;
          result_lab = source_lab
      in foldl (transfer_channel source_lab source_mean source_std target_mean target_std)
           result_lab (if preserve_luminance then [1, 2] else [0, 1, 2]))"

record color_shift =
  L_shift :: real
  a_shift :: real
  b_shift :: real
  brightness_change :: string
  warmth_change :: string

text \<open>The result: the image that is saved (\<^verbatim>\<open>result_rgb\<close>) and the returned
  statistics. The output path is not modelled.\<close>

record transfer_result =
  result_rgb :: "rgb8 list"
  source_mean_lab :: fpixel
  target_mean_lab :: fpixel
  shift :: color_shift

definition reinhard_color_transfer ::
    "(rgb8 \<Rightarrow> rgb8) \<Rightarrow> (rgb8 \<Rightarrow> rgb8) \<Rightarrow> rgb8 list \<Rightarrow> rgb8 list \<Rightarrow> bool \<Rightarrow> transfer_result" where
  "reinhard_color_transfer cvt cvt_back source_img target_img preserve_luminance =
     (let source_lab = rgb_to_lab cvt source_img;
          target_lab = rgb_to_lab cvt target_img;
          source_mean = mean_axis01 source_lab;
          target_mean = mean_axis01 target_lab;
          result_lab = reinhard_lab preserve_luminance source_lab target_lab
      in \<lparr>result_rgb = lab_to_rgb cvt_back result_lab,
          source_mean_lab = source_mean,
          target_mean_lab = target_mean,
          shift = \<lparr>L_shift = chan 0 target_mean - chan 0 source_mean,
                    a_shift = chan 1 target_mean - chan 1 source_mean,
                    b_shift = chan 2 target_mean - chan 2 source_mean,
                    brightness_change =
                      (if chan 0 target_mean < chan 0 source_mean then ''darker'' else ''lighter''),
                    warmth_change =
                      (if chan 2 target_mean > chan 2 source_mean then ''warmer'' else ''cooler'')\<rparr>\<rparr>)"

section \<open>Returned dictionaries with a \<^verbatim>\<open>success\<close> flag\<close>

text \<open>\<^verbatim>\<open>{"success": False, "error": msg}\<close> is \<open>Failure msg\<close>; a dictionary with
  \<^verbatim>\<open>"success": True\<close> is \<open>Success\<close> of its other entries.\<close>

datatype 'a outcome = Failure string | Success 'a

section \<open>Structural similarity (\<^verbatim>\<open>compute_ssim\<close>)\<close>

type_synonym contour = "(int \<times> int) list"

text \<open>The functions of OpenCV and scikit-image the code calls. An image is the
  list of its rows.\<close>

record vision_lib =
  cvtColor_gray :: "rgb8 list list \<Rightarrow> byte list list"
  cv_resize :: "rgb8 list list \<Rightarrow> nat \<times> nat \<Rightarrow> rgb8 list list"
  structural_similarity :: "byte list list \<Rightarrow> byte list list \<Rightarrow> py_error + real \<times> real list list"
  findContours :: "byte list list \<Rightarrow> contour list"
  boundingRect :: "contour \<Rightarrow> int \<times> int \<times> int \<times> int"
  contourArea :: "contour \<Rightarrow> real"

record diff_region =
  bbox :: "int \<times> int \<times> int \<times> int"
  area :: int

record ssim_result =
  ssim :: real
  passed :: bool
  difference_regions :: "diff_region list"
  analysis :: string

definition shape :: "'a list list \<Rightarrow> nat \<times> nat" where
  "shape img = (case img of [] \<Rightarrow> (0, 0) | row # _ \<Rightarrow> (length img, length row))"

text \<open>\<^verbatim>\<open>(diff_map * 255).astype(np.uint8)\<close>; a value outside the range of
  \<^verbatim>\<open>uint8\<close> wraps, as the conversion does on the usual platforms.\<close>

definition diff_to_uint8 :: "real \<Rightarrow> byte" where
  "diff_to_uint8 d = word_of_int (trunc (d * 255))"

text \<open>\<^verbatim>\<open>cv2.threshold(src, 200, 255, cv2.THRESH_BINARY_INV)\<close> on one
  pixel: 0 above the threshold, 255 otherwise.\<close>

definition threshold_binary_inv :: "byte \<Rightarrow> byte" where
  "threshold_binary_inv v = (if unat v > 200 then 0 else 255)"

fun collect_regions :: "vision_lib \<Rightarrow> contour list \<Rightarrow> diff_region list" where
  "collect_regions lib [] = []"
| "collect_regions lib (cnt # rest) =
     (if contourArea lib cnt > 100
      then \<lparr>bbox = boundingRect lib cnt, area = trunc (contourArea lib cnt)\<rparr> #
           collect_regions lib rest
      else collect_regions lib rest)"

text \<open>Lines 290 to 299: the two grayscale images that are compared.\<close>

definition gray_pair ::
    "vision_lib \<Rightarrow> rgb8 list list \<Rightarrow> rgb8 list list \<Rightarrow> byte list list \<times> byte list list" where
  "gray_pair lib img1 img2 =
     (let (img1, img2) =
            (if shape img1 \<noteq> shape img2 then
               (let h = min (fst (shape img1)) (fst (shape img2));
                    w = min (snd (shape img1)) (snd (shape img2))
                in (cv_resize lib img1 (w, h), cv_resize lib img2 (w, h)))
             else (img1, img2))
      in (cvtColor_gray lib img1, cvtColor_gray lib img2))"

definition compute_ssim ::
    "bool \<Rightarrow> vision_lib \<Rightarrow> rgb8 list list \<Rightarrow> rgb8 list list \<Rightarrow> py_error + ssim_result outcome" where
  "compute_ssim has_skimage lib img1 img2 =
     (if \<not> has_skimage then
        Inr (Failure ''scikit-image not installed. Run: pip install scikit-image'')
      else
        (let (gray1, gray2) = gray_pair lib img1 img2
         in case structural_similarity lib gray1 gray2 of
              Inl e \<Rightarrow> Inl e
            | Inr (score, diff_map) \<Rightarrow>
                (let diff_map_uint8 = map (map diff_to_uint8) diff_map;
                     thresh = map (map threshold_binary_inv) diff_map_uint8;
                     contours = findContours lib thresh;
                     diff_regions = collect_regions lib (take 5 contours)
                 in Inr (Success
                      \<lparr>ssim = py_round score 4,
                       passed = (score \<ge> 94 / 100),
                       difference_regions = diff_regions,
                       analysis =
                         (if score \<ge> 95 / 100 then ''excellent''
                          else if score \<ge> 90 / 100 then ''good''
                          else if score \<ge> 80 / 100 then ''fair'' else ''poor'')\<rparr>))))"

section \<open>Adjustment suggestions (\<^verbatim>\<open>suggest_color_adjustments\<close>)\<close>

text \<open>The three numbers and the tone label of the result; \<^verbatim>\<open>css_filter\<close>, a
  rendering of the three numbers as text, is not modelled.\<close>

record suggestion =
  brightness :: real
  contrast :: real
  saturate :: real
  tone_suggestion :: string

text \<open>\<^verbatim>\<open>np.array([[bg]], dtype=np.uint8)\<close>: NumPy 2 raises \<^verbatim>\<open>OverflowError\<close> for
  a Python integer out of range (earlier versions wrap it).\<close>

definition is_uint8 :: "int \<Rightarrow> bool" where
  "is_uint8 v \<longleftrightarrow> 0 \<le> v \<and> v < 256"

definition valid_rgb :: "ipixel \<Rightarrow> bool" where
  "valid_rgb p = (case p of (r, g, b) \<Rightarrow> is_uint8 r \<and> is_uint8 g \<and> is_uint8 b)"

definition as_uint8 :: "int \<Rightarrow> py_error + byte" where
  "as_uint8 v = (if is_uint8 v then Inr (word_of_int v) else Inl OverflowError)"

definition uint8_pixel :: "ipixel \<Rightarrow> py_error + rgb8" where
  "uint8_pixel p =
     (case p of (r, g, b) \<Rightarrow>
        (case as_uint8 r of Inl e \<Rightarrow> Inl e | Inr r' \<Rightarrow>
         case as_uint8 g of Inl e \<Rightarrow> Inl e | Inr g' \<Rightarrow>
         case as_uint8 b of Inl e \<Rightarrow> Inl e | Inr b' \<Rightarrow> Inr (r', g', b')))"

text \<open>\<^verbatim>\<open>[c["rgb"] for c in colors]\<close> as \<^verbatim>\<open>np.std\<close> sees it: all channel
  values.\<close>

definition rgb_values :: "palette_entry list \<Rightarrow> real list" where
  "rgb_values cs =
     concat (map (\<lambda>c. case rgb c of (r, g, b) \<Rightarrow> [of_int r, of_int g, of_int b]) cs)"

text \<open>\<^verbatim>\<open>palette.get("palette_details", [])\<close>.\<close>

definition get_palette_details :: "palette \<Rightarrow> palette_entry list" where
  "get_palette_details p = (case palette_details p of None \<Rightarrow> [] | Some d \<Rightarrow> d)"

definition suggest_color_adjustments ::
    "(rgb8 \<Rightarrow> rgb8) \<Rightarrow> palette \<Rightarrow> palette \<Rightarrow> py_error + suggestion outcome" where
  "suggest_color_adjustments cvt ref_palette gen_palette =
     (let ref_colors = get_palette_details ref_palette;
          gen_colors = get_palette_details gen_palette
      in if ref_colors = [] \<or> gen_colors = [] then Inr (Failure ''No palette data available'')
         else
           (case uint8_pixel (rgb (ref_colors ! 0)) of Inl e \<Rightarrow> Inl e | Inr ref_bg \<Rightarrow>
            case uint8_pixel (rgb (gen_colors ! 0)) of Inl e \<Rightarrow> Inl e | Inr gen_bg \<Rightarrow>
              (let ref_lab = rgb_to_lab cvt [ref_bg] ! 0;
                   gen_lab = rgb_to_lab cvt [gen_bg] ! 0;
                   l_diff = chan 0 ref_lab - chan 0 gen_lab;
                   brightness =
                     (if \<bar>l_diff\<bar> > 10
                      then max (1 / 2) (min (3 / 2) (py_round (1 + l_diff / 100) 2))
                      else 1);
                   ref_saturation = np_std (rgb_values ref_colors);
                   gen_saturation = np_std (rgb_values gen_colors);
                   saturate =
                     (if gen_saturation > 0
                      then max (1 / 2) (min (3 / 2) (py_round (ref_saturation / gen_saturation) 2))
                      else 1);
                   contrast = 1
               in Inr (Success
                    \<lparr>brightness = brightness, contrast = contrast, saturate = saturate,
                     tone_suggestion =
                       (if l_diff < - 10 then ''darker''
                        else if l_diff > 10 then ''lighter'' else ''neutral'')\<rparr>))))"

section \<open>Normalisation (\<^verbatim>\<open>load_and_normalize\<close>)\<close>

text \<open>
  The quotient \<^verbatim>\<open>width / img.width\<close> and the product \<^verbatim>\<open>img.height * ratio\<close>
  are binary64 operations: the exact result rounded to 53 significant bits,
  ties to even. \<open>binade x\<close> is the exponent \<open>e\<close> with \<open>2 ^ e \<le> x < 2 ^ (e + 1)\<close>.
  Overflow and subnormal numbers do not arise for image sizes.
\<close>

definition binade :: "real \<Rightarrow> int" where
  "binade x =
     (if 1 \<le> x then int (floorlog 2 (nat \<lfloor>x\<rfloor>)) - 1
      else - int (floorlog 2 (nat (\<lceil>1 / x\<rceil> - 1))))"

definition binary64 :: "real \<Rightarrow> real" where
  "binary64 x =
     (if x = 0 then 0
      else sgn x * of_int (round_half_even (\<bar>x\<bar> * 2 powi (52 - binade \<bar>x\<bar>))) *
           2 powi (binade \<bar>x\<bar> - 52))"

text \<open>What the tools use of a Pillow image: its size and mode.\<close>

record pil_image =
  width :: int
  height :: int
  mode :: string

text \<open>\<^verbatim>\<open>Image.resize\<close> rejects a size with a side below 1.\<close>

definition pil_resize :: "pil_image \<Rightarrow> int \<times> int \<Rightarrow> py_error + pil_image" where
  "pil_resize img sz =
     (case sz of (w, h) \<Rightarrow>
        if w < 1 \<or> h < 1 then Inl ValueError else Inr (img\<lparr>width := w, height := h\<rparr>))"

text \<open>Lines 172 to 180: an RGBA image is pasted on a white background of the
  same size, any other mode is converted.\<close>

definition convert_to_rgb :: "pil_image \<Rightarrow> pil_image" where
  "convert_to_rgb img = img\<lparr>mode := ''RGB''\<rparr>"

definition new_height :: "int \<Rightarrow> int \<Rightarrow> int \<Rightarrow> int" where
  "new_height h w target_width =
     (let ratio = binary64 (of_int target_width / of_int w)
      in trunc (binary64 (of_int h * ratio)))"

text \<open>\<open>auto_crop_content\<close> rests on OpenCV's edge and contour detection and is a
  parameter; \<open>img\<close> is the image \<^verbatim>\<open>Image.open\<close> has decoded.\<close>

definition load_and_normalize ::
    "(pil_image \<Rightarrow> pil_image) \<Rightarrow> pil_image \<Rightarrow> int \<Rightarrow> bool \<Rightarrow> bool \<Rightarrow> py_error + pil_image" where
  "load_and_normalize auto_crop_content img target_width auto_crop convert_srgb =
     (let img = (if convert_srgb then convert_to_rgb img else img);
          img = (if auto_crop then auto_crop_content img else img)
      in if width img \<noteq> target_width
         then pil_resize img (target_width, new_height (height img) (width img) target_width)
         else Inr img)"


section \<open>Properties of palette extraction\<close>

lemma hexcolor_nonempty: "hexcolor c \<noteq> []"
  by (cases c) (simp add: hexcolor_def)

lemma build_colors_Inr:
  "build_colors centers lbls idxs = Inr cs \<Longrightarrow>
     map frequency cs = map (\<lambda>i. real (count_list lbls i) / real (length lbls)) idxs \<and>
     map hex cs = map (\<lambda>i. hexcolor (centers ! i)) idxs \<and>
     map rgb cs = map (\<lambda>i. centers ! i) idxs"
proof (induction idxs arbitrary: cs)
  case Nil
  then show ?case by simp
next
  case (Cons idx rest)
  then show ?case
    by (auto split: if_splits sum.splits)
qed

lemma build_colors_length:
  "build_colors centers lbls idxs = Inr cs \<Longrightarrow> length cs = length idxs"
  using build_colors_Inr [of centers lbls idxs cs] by (metis length_map)

lemma sorted_indices_sorted:
  "sorted (map (\<lambda>x. - int (count_list lbls x)) (sorted_indices lbls))"
  by (simp add: sorted_indices_def)

lemma sorted_indices_set: "set (sorted_indices lbls) = set lbls"
  by (simp add: sorted_indices_def counter_keys_def)

lemma sorted_indices_distinct: "distinct (sorted_indices lbls)"
  by (simp add: sorted_indices_def counter_keys_def)

lemma sorted_indices_frequency:
  "sorted_wrt (\<ge>) (map (\<lambda>i. real (count_list lbls i) / real (length lbls)) (sorted_indices lbls))"
proof -
  have "sorted_wrt (\<lambda>x y. - int (count_list lbls x) \<le> - int (count_list lbls y)) (sorted_indices lbls)"
    using sorted_indices_sorted [of lbls] by (simp add: sorted_map)
  then have "sorted_wrt (\<lambda>x y. real (count_list lbls x) / real (length lbls)
                 \<ge> real (count_list lbls y) / real (length lbls)) (sorted_indices lbls)"
    by (rule sorted_wrt_mono_rel [rotated]) (simp add: divide_right_mono)
  then show ?thesis by (simp add: sorted_wrt_map)
qed

lemma sorted_indices_length:
  assumes "\<forall>l\<in>set lbls. int l < k"
  shows "int (length (sorted_indices lbls)) \<le> max 0 k"
proof -
  have "length (sorted_indices lbls) = card (set lbls)"
    using sorted_indices_distinct [of lbls] sorted_indices_set [of lbls]
    by (metis distinct_card)
  moreover have "set lbls \<subseteq> {..<nat k}"
    using assms by auto
  then have "card (set lbls) \<le> card {..<nat k}"
    by (intro card_mono) simp_all
  ultimately show ?thesis by simp
qed

lemma accent_loop_spec:
  "accent_loop cs (a, m) = (a', m') \<Longrightarrow>
     (if \<exists>c\<in>set cs. m < saturation c
      then \<exists>c\<in>set cs. a' = Some (hex c) \<and> m' = saturation c \<and>
             (\<forall>c'\<in>set cs. saturation c' \<le> saturation c)
      else a' = a \<and> m' = m) \<and> m \<le> m'"
proof (induction cs arbitrary: a m)
  case Nil
  then show ?case by simp
next
  case (Cons c cs)
  show ?case
  proof (cases "saturation c > m")
    case True
    with Cons.prems have "accent_loop cs (Some (hex c), saturation c) = (a', m')" by simp
    from Cons.IH [OF this] True show ?thesis
      by (auto split: if_splits) 
  next
    case False
    with Cons.prems have "accent_loop cs (a, m) = (a', m')" by simp
    from Cons.IH [OF this] False show ?thesis
      by (auto split: if_splits) 
  qed
qed

lemma palette_of_fit_Inr:
  assumes "palette_of_fit fit = Inr p"
  obtains c0 cs where
    "build_colors (map trunc_pixel (cluster_centers fit)) (labels fit)
       (sorted_indices (labels fit)) = Inr (c0 # cs)"
    "palette_details p = Some (c0 # cs)"
    "colors p = map hex (c0 # cs)"
    "primary_background p = hex c0"
    "accent p = Some (accent_result (fst (accent_loop cs (None, 0))) (c0 # cs) (hex c0))"
  using assms
  by (auto simp: palette_of_fit_def Let_def split: sum.splits list.splits)

lemma extract_palette_cases:
  assumes "extract_palette nan_int KMeans img k ew eb = Inr p"
  obtains (fallback) "palette_details p = None" "length (colors p) = 1" "0 < k"
  | (clustered) px fit where "KMeans k px = Inr fit" "palette_of_fit fit = Inr p"
  using assms
  by (auto simp: extract_palette_def Let_def split: if_splits sum.splits)

lemma build_colors_hex_nonempty:
  "build_colors centers lbls idxs = Inr cs \<Longrightarrow> \<forall>c\<in>set cs. hex c \<noteq> []"
proof (induction idxs arbitrary: cs)
  case Nil
  then show ?case by simp
next
  case (Cons idx rest)
  then show ?case
    by (auto simp: hexcolor_nonempty split: if_splits sum.splits)
qed

lemmas palette_eval =
  extract_palette_def remaining_pixels_def palette_of_fit_def sorted_indices_def counter_keys_def accent_result_def
  saturation_def astype_float_def mean_axis0_def astype_int_def trunc_pixel_def trunc_def hexcolor_def
  fmt_02x_def hex_digits.simps hex_digit_def Let_def

text \<open>
  Claim C7. For every input image and every \<open>k\<close>, the palette
  \<^verbatim>\<open>extract_palette\<close> returns has at most \<open>k\<close> entries and is sorted by
  non-increasing frequency. The clustering is scikit-learn's; what is used of
  it is that its labels are cluster indices below \<open>k\<close>. On the fallback path
  the palette has one entry and carries no frequencies.
\<close>

theorem palette_sorted_and_bounded:
  assumes ret: "extract_palette nan_int KMeans img k ew eb = Inr p"
    and lbl: "\<And>px fit. KMeans k px = Inr fit \<Longrightarrow> \<forall>l\<in>set (labels fit). int l < k"
  shows "int (length (colors p)) \<le> k \<and>
         (case palette_details p of None \<Rightarrow> True
          | Some d \<Rightarrow> colors p = map hex d \<and> sorted_wrt (\<ge>) (map frequency d))"
  using ret
proof (cases rule: extract_palette_cases)
  case fallback
  then show ?thesis by simp
next
  case (clustered px fit)
  from clustered(2) obtain c0 cs where
    bc: "build_colors (map trunc_pixel (cluster_centers fit)) (labels fit)
          (sorted_indices (labels fit)) = Inr (c0 # cs)"
    and pd: "palette_details p = Some (c0 # cs)"
    and cl: "colors p = map hex (c0 # cs)"
    by (rule palette_of_fit_Inr)
  have len: "length (c0 # cs) = length (sorted_indices (labels fit))"
    using bc by (rule build_colors_length)
  have "int (length (sorted_indices (labels fit))) \<le> max 0 k"
    using lbl [OF clustered(1)] by (rule sorted_indices_length)
  with len have "int (length (c0 # cs)) \<le> k" by simp
  moreover have "sorted_wrt (\<ge>) (map frequency (c0 # cs))"
    using build_colors_Inr [OF bc] sorted_indices_frequency [of "labels fit"] by simp
  ultimately show ?thesis using pd cl by simp
qed

text \<open>An instance: six pixels in three clusters of sizes 3, 2 and 1.\<close>

theorem palette_sorted_and_bounded_witness:
  "extract_palette 0
     (\<lambda>k px. Inr \<lparr>cluster_centers = [(10, 20, 30), (200, 100, 50), (7, 7, 7)],
                    labels = [0, 1, 1, 2, 1, 0]\<rparr>)
     [(10, 20, 30), (200, 100, 50), (200, 100, 50), (7, 7, 7), (200, 100, 50), (10, 20, 30),
      (255, 255, 255)] 3 True True =
   Inr \<lparr>success = True, colors = [''#c86432'', ''#0a141e'', ''#070707''],
        palette_details = Some
          [\<lparr>hex = ''#c86432'', rgb = (200, 100, 50), frequency = 1 / 2\<rparr>,
           \<lparr>hex = ''#0a141e'', rgb = (10, 20, 30), frequency = 1 / 3\<rparr>,
           \<lparr>hex = ''#070707'', rgb = (7, 7, 7), frequency = 1 / 6\<rparr>],
        primary_background = ''#c86432'', accent = Some ''#0a141e''\<rparr> \<and>
   int (length [''#c86432'', ''#0a141e'', ''#070707'']) \<le> 3 \<and>
   sorted_wrt (\<ge>) [1 / 2, 1 / 3, 1 / (6 :: real)]"
proof -
  let ?km = "\<lambda>(k :: int) (px :: fpixel list).
     (Inr \<lparr>cluster_centers = [(10, 20, 30), (200, 100, 50), (7, 7, 7)],
           labels = [0, 1, 1, 2, 1, 0]\<rparr> :: py_error + kmeans_fit)"
  let ?img = "[(10, 20, 30), (200, 100, 50), (200, 100, 50), (7, 7, 7), (200, 100, 50),
      (10, 20, 30), (255, 255, 255)] :: rgb8 list"
  let ?p = "\<lparr>success = True, colors = [''#c86432'', ''#0a141e'', ''#070707''],
        palette_details = Some
          [\<lparr>hex = ''#c86432'', rgb = (200, 100, 50), frequency = 1 / 2\<rparr>,
           \<lparr>hex = ''#0a141e'', rgb = (10, 20, 30), frequency = 1 / 3\<rparr>,
           \<lparr>hex = ''#070707'', rgb = (7, 7, 7), frequency = 1 / 6\<rparr>],
        primary_background = ''#c86432'', accent = Some ''#0a141e''\<rparr>"
  have ev: "extract_palette 0 ?km ?img 3 True True = Inr ?p"
    by (simp add: palette_eval)
  have lbl: "\<And>px fit. ?km 3 px = Inr fit \<Longrightarrow> \<forall>l\<in>set (labels fit). int l < 3"
    by auto
  from palette_sorted_and_bounded [OF ev lbl] ev show ?thesis
    by simp
qed

text \<open>
  Claim C5. For a palette of the k-means path (the one with
  \<^verbatim>\<open>palette_details\<close>): the first entry, whose frequency is the highest, is
  the primary background; the accent is an entry after the first whose
  saturation proxy (largest minus smallest channel) is the largest, when some
  such entry has a positive one; otherwise it is the second entry when there
  is one, and the background itself when the palette has a single entry.
\<close>

theorem palette_roles:
  assumes ret: "extract_palette nan_int KMeans img k ew eb = Inr p"
    and det: "palette_details p = Some d"
  shows "d \<noteq> [] \<and> primary_background p = hex (hd d) \<and>
         (\<forall>c\<in>set d. frequency c \<le> frequency (hd d)) \<and>
         (if \<exists>c\<in>set (tl d). 0 < saturation c
          then \<exists>c\<in>set (tl d). accent p = Some (hex c) \<and>
                 (\<forall>c'\<in>set (tl d). saturation c' \<le> saturation c)
          else if 1 < length d then accent p = Some (hex (d ! 1))
          else accent p = Some (primary_background p))"
  using ret
proof (cases rule: extract_palette_cases)
  case fallback
  with det show ?thesis by simp
next
  case (clustered px fit)
  from clustered(2) obtain c0 cs where
    bc: "build_colors (map trunc_pixel (cluster_centers fit)) (labels fit)
          (sorted_indices (labels fit)) = Inr (c0 # cs)"
    and pd: "palette_details p = Some (c0 # cs)"
    and bg: "primary_background p = hex c0"
    and ac: "accent p = Some (accent_result (fst (accent_loop cs (None, 0))) (c0 # cs) (hex c0))"
    by (rule palette_of_fit_Inr)
  from pd det have d: "d = c0 # cs" by simp
  have "sorted_wrt (\<ge>) (map frequency (c0 # cs))"
    using build_colors_Inr [OF bc] sorted_indices_frequency [of "labels fit"] by simp
  then have freq: "\<forall>c\<in>set d. frequency c \<le> frequency (hd d)"
    by (auto simp: d)
  have hexne: "\<forall>c\<in>set cs. hex c \<noteq> []"
    using build_colors_hex_nonempty [OF bc] by simp
  obtain a' m' where loop: "accent_loop cs (None, 0) = (a', m')"
    by (cases "accent_loop cs (None, 0)")
  note spec = accent_loop_spec [OF loop]
  have acc: "if \<exists>c\<in>set cs. 0 < saturation c
          then \<exists>c\<in>set cs. accent p = Some (hex c) \<and>
                 (\<forall>c'\<in>set cs. saturation c' \<le> saturation c)
          else if cs \<noteq> [] then accent p = Some (hex (cs ! 0))
          else accent p = Some (hex c0)"
  proof (cases "\<exists>c\<in>set cs. 0 < saturation c")
    case True
    with spec obtain c where c: "c \<in> set cs" "a' = Some (hex c)"
      "\<forall>c'\<in>set cs. saturation c' \<le> saturation c"
      by auto
    from c(1) have "cs \<noteq> []" by auto
    with c hexne have "accent_result a' (c0 # cs) (hex c0) = hex c"
      by (simp add: accent_result_def)
    with True c ac loop show ?thesis by auto
  next
    case False
    with spec have "a' = None" by simp
    with False ac loop show ?thesis
      by (simp add: accent_result_def)
  qed
  from acc freq bg show ?thesis
    by (simp add: d)
qed

text \<open>An instance: the accent is the more saturated of the two entries after the
  background.\<close>

theorem palette_roles_witness:
  "extract_palette 0
     (\<lambda>k px. Inr \<lparr>cluster_centers = [(10, 20, 30), (200, 100, 50), (7, 7, 7)],
                    labels = [0, 1, 1, 2, 1, 0]\<rparr>)
     [(10, 20, 30), (200, 100, 50), (200, 100, 50), (7, 7, 7), (200, 100, 50), (10, 20, 30),
      (255, 255, 255)] 3 True True =
   Inr \<lparr>success = True, colors = [''#c86432'', ''#0a141e'', ''#070707''],
        palette_details = Some
          [\<lparr>hex = ''#c86432'', rgb = (200, 100, 50), frequency = 1 / 2\<rparr>,
           \<lparr>hex = ''#0a141e'', rgb = (10, 20, 30), frequency = 1 / 3\<rparr>,
           \<lparr>hex = ''#070707'', rgb = (7, 7, 7), frequency = 1 / 6\<rparr>],
        primary_background = ''#c86432'', accent = Some ''#0a141e''\<rparr> \<and>
   saturation \<lparr>hex = ''#0a141e'', rgb = (10, 20, 30), frequency = 1 / 3\<rparr> = 20 \<and>
   saturation \<lparr>hex = ''#070707'', rgb = (7, 7, 7), frequency = 1 / 6\<rparr> = 0"
proof -
  let ?km = "\<lambda>(k :: int) (px :: fpixel list).
     (Inr \<lparr>cluster_centers = [(10, 20, 30), (200, 100, 50), (7, 7, 7)],
           labels = [0, 1, 1, 2, 1, 0]\<rparr> :: py_error + kmeans_fit)"
  let ?img = "[(10, 20, 30), (200, 100, 50), (200, 100, 50), (7, 7, 7), (200, 100, 50),
      (10, 20, 30), (255, 255, 255)] :: rgb8 list"
  let ?d = "[\<lparr>hex = ''#c86432'', rgb = (200, 100, 50), frequency = 1 / 2\<rparr>,
           \<lparr>hex = ''#0a141e'', rgb = (10, 20, 30), frequency = 1 / 3\<rparr>,
           \<lparr>hex = ''#070707'', rgb = (7, 7, 7), frequency = 1 / 6\<rparr>]"
  let ?p = "\<lparr>success = True, colors = [''#c86432'', ''#0a141e'', ''#070707''],
        palette_details = Some ?d,
        primary_background = ''#c86432'', accent = Some ''#0a141e''\<rparr>"
  have ev: "extract_palette 0 ?km ?img 3 True True = Inr ?p"
    by (simp add: palette_eval)
  have det: "palette_details ?p = Some ?d"
    by simp
  from palette_roles [OF ev det] ev show ?thesis
    by (simp add: saturation_def)
qed

section \<open>Properties of the similarity result\<close>

lemma round_half_even_of_int: "round_half_even (of_int n :: real) = n"
  by (simp add: round_half_even_def)

lemma py_round_of_int_div: "py_round (of_int n / 10 ^ k) k = of_int n / 10 ^ k"
  by (simp add: py_round_def round_half_even_of_int)

lemma round_half_even_upper_half:
  fixes y :: real
  assumes "of_int n + 1 / 2 \<le> y" "y < of_int n + 1" "odd n"
  shows "round_half_even y = n + 1"
proof -
  have fl: "\<lfloor>y\<rfloor> = n"
    using assms by (simp add: floor_eq_iff)
  show ?thesis
    unfolding round_half_even_def fl Let_def using assms by auto
qed

lemma py_round_near_threshold:
  assumes "93995 / 100000 \<le> s" "s < 94 / 100"
  shows "py_round s 4 = 94 / 100"
proof -
  define y where "y = s * 10 ^ 4"
  have "of_int 9399 + 1 / 2 \<le> y" "y < of_int 9399 + 1"
    using assms by (simp_all add: y_def)
  then have "round_half_even y = 9399 + 1"
    by (rule round_half_even_upper_half) simp
  then show ?thesis
    by (simp add: py_round_def y_def)
qed

lemma diff_to_uint8_one: "diff_to_uint8 1 = 255"
  by (simp add: diff_to_uint8_def trunc_def)

lemma threshold_binary_inv_255: "threshold_binary_inv 255 = 0"
  by (simp add: threshold_binary_inv_def)

lemma py_round_one: "py_round 1 n = 1"
  using py_round_of_int_div [of "10 ^ n" n] by simp

lemma gray_pair_same: "gray_pair lib img img = (cvtColor_gray lib img, cvtColor_gray lib img)"
  by (simp add: gray_pair_def)

text \<open>
  Claim C10. In the result of \<^verbatim>\<open>compute_ssim\<close> the flag \<^verbatim>\<open>passed\<close> is
  computed from the score as scikit-image returned it (passed if and only if
  the score is at least 0.94), while the field \<^verbatim>\<open>ssim\<close> is that score rounded
  to four decimal places. Hence a score in \<open>[0.93995, 0.94)\<close> is reported as
  \<^verbatim>\<open>ssim = 0.94\<close> together with \<^verbatim>\<open>passed = False\<close>.
\<close>

theorem ssim_passed_from_unrounded_score:
  assumes lib: "structural_similarity lib (fst (gray_pair lib img1 img2))
                  (snd (gray_pair lib img1 img2)) = Inr (score, diff_map)"
  shows "\<exists>r. compute_ssim True lib img1 img2 = Inr (Success r) \<and>
           passed r = (score \<ge> 94 / 100) \<and> ssim r = py_round score 4 \<and>
           (93995 / 100000 \<le> score \<and> score < 94 / 100 \<longrightarrow>
              ssim r = 94 / 100 \<and> \<not> passed r)"
  using lib
  by (cases "gray_pair lib img1 img2")
     (auto simp: compute_ssim_def Let_def py_round_near_threshold)

text \<open>An instance: a library score of 0.93997.\<close>

theorem ssim_passed_from_unrounded_score_witness:
  "compute_ssim True
     \<lparr>cvtColor_gray = map (map fst), cv_resize = (\<lambda>img sz. img),
        structural_similarity = (\<lambda>a b. Inr (93997 / 100000, map (map (\<lambda>v. 93997 / 100000)) a)),
        findContours = (\<lambda>m. []), boundingRect = (\<lambda>c. (0, 0, 0, 0)),
        contourArea = (\<lambda>c. 0)\<rparr>
     [[(10, 10, 10)]] [[(12, 12, 12)]] =
   Inr (Success \<lparr>ssim = 94 / 100, passed = False, difference_regions = [],
                  analysis = ''good''\<rparr>)"
proof -
  let ?lib = "\<lparr>cvtColor_gray = map (map fst), cv_resize = (\<lambda>img sz. img),
        structural_similarity = (\<lambda>a b. Inr (93997 / 100000, map (map (\<lambda>v. 93997 / 100000)) a)),
        findContours = (\<lambda>m. []), boundingRect = (\<lambda>c. (0, 0, 0, 0)),
        contourArea = (\<lambda>c. 0)\<rparr>"
  let ?a = "[[(10, 10, 10)]] :: rgb8 list list"
  let ?b = "[[(12, 12, 12)]] :: rgb8 list list"
  have "structural_similarity ?lib (fst (gray_pair ?lib ?a ?b)) (snd (gray_pair ?lib ?a ?b)) =
          Inr (93997 / 100000, [[93997 / 100000]])"
    by (simp add: gray_pair_def shape_def)
  from ssim_passed_from_unrounded_score [OF this]
  obtain r where r: "compute_ssim True ?lib ?a ?b = Inr (Success r)"
    "ssim r = 94 / 100" "\<not> passed r"
    by auto
  have "compute_ssim True ?lib ?a ?b =
          Inr (Success \<lparr>ssim = py_round (93997 / 100000) 4, passed = False,
                         difference_regions = [], analysis = ''good''\<rparr>)"
    by (simp add: compute_ssim_def gray_pair_def shape_def)
  with r show ?thesis
    by (cases r) simp
qed

text \<open>
  What the code adds to a library score of 1 with a similarity map of ones:
  the reported \<^verbatim>\<open>ssim\<close> is 1.0, the mask of differences is empty, so there
  are no difference regions, the bucket is \<^verbatim>\<open>excellent\<close> and \<^verbatim>\<open>passed\<close> is
  true. Whether scikit-image returns that score and map for an image compared
  with itself is decided inside the library. Of OpenCV it is used that a mask
  without a non-zero pixel has no contour.
\<close>

lemma compute_ssim_score_one:
  assumes lib: "structural_similarity lib (fst (gray_pair lib img1 img2))
                  (snd (gray_pair lib img1 img2)) = Inr (1, diff_map)"
    and ones: "\<forall>row\<in>set diff_map. \<forall>d\<in>set row. d = 1"
    and none: "\<And>m. \<forall>row\<in>set m. \<forall>v\<in>set row. v = 0 \<Longrightarrow> findContours lib m = []"
  shows "compute_ssim True lib img1 img2 =
           Inr (Success \<lparr>ssim = 1, passed = True, difference_regions = [],
                          analysis = ''excellent''\<rparr>)"
proof -
  let ?thresh = "map (map threshold_binary_inv) (map (map diff_to_uint8) diff_map)"
  have "\<forall>row\<in>set ?thresh. \<forall>v\<in>set row. v = 0"
  proof (intro ballI)
    fix row v
    assume "row \<in> set ?thresh" "v \<in> set row"
    then obtain row' d where "row' \<in> set diff_map" "d \<in> set row'"
      "v = threshold_binary_inv (diff_to_uint8 d)"
      by auto
    moreover from this ones have "d = 1" by blast
    ultimately show "v = 0"
      by (simp add: diff_to_uint8_one threshold_binary_inv_255)
  qed
  then have "findContours lib ?thresh = []"
    by (rule none)
  then show ?thesis
    using lib
    by (cases "gray_pair lib img1 img2") (simp add: compute_ssim_def Let_def py_round_one)
qed

section \<open>Properties of the adjustment suggestion\<close>

lemma py_round_two_places: "py_round (1 + of_int n / 100) 2 = 1 + of_int n / 100"
proof -
  have "(1 + of_int n / 100 :: real) = of_int (100 + n) / 10 ^ 2"
    by simp
  then show ?thesis
    using py_round_of_int_div [of "100 + n" 2] by metis
qed

lemma chan0_lab_integer:
  "chan 0 (rgb_to_lab cvt [p] ! 0) - chan 0 (rgb_to_lab cvt [q] ! 0) =
     of_int (int (unat (fst (cvt p))) - int (unat (fst (cvt q))))"
  by (cases "cvt p"; cases "cvt q") (simp add: rgb_to_lab_def astype_float_def chan_def)

lemma uint8_pixel_valid:
  "is_uint8 r \<Longrightarrow> is_uint8 g \<Longrightarrow> is_uint8 b \<Longrightarrow>
     uint8_pixel (r, g, b) = Inr (word_of_int r, word_of_int g, word_of_int b)"
  by (simp add: uint8_pixel_def as_uint8_def)

lemma uint8_pixel_valid_rgb: "valid_rgb p \<Longrightarrow> \<exists>q. uint8_pixel p = Inr q"
  by (cases p) (simp add: valid_rgb_def uint8_pixel_valid)

text \<open>
  Claim C8, as amended. For two palettes that carry palette details (each
  \<^verbatim>\<open>palette_details\<close> list has an entry, with 8-bit RGB values), with \<open>dL\<close> the
  difference of the L channels of the two background entries in LAB
  (reference minus generated): the brightness multiplier is 1 when
  \<open>\<bar>dL\<bar> \<le> 10\<close> and \<open>1 + dL / 100\<close> clamped to \<open>[0.5, 1.5]\<close> otherwise; the
  tone is \<^verbatim>\<open>darker\<close> when \<open>dL < - 10\<close>, \<^verbatim>\<open>lighter\<close> when \<open>dL > 10\<close> and
  \<^verbatim>\<open>neutral\<close> otherwise. The L channel is the 8-bit one of OpenCV, so \<open>dL\<close> is
  an integer, and rounding \<open>1 + dL / 100\<close> to two decimal places leaves it as
  it is.
\<close>

theorem suggest_brightness_and_tone:
  assumes ref: "get_palette_details ref_palette = r0 # rs"
    and gen: "get_palette_details gen_palette = g0 # gs"
    and rb: "uint8_pixel (rgb r0) = Inr ref_bg"
    and gb: "uint8_pixel (rgb g0) = Inr gen_bg"
    and dL: "dL = chan 0 (rgb_to_lab cvt [ref_bg] ! 0) - chan 0 (rgb_to_lab cvt [gen_bg] ! 0)"
  shows "\<exists>s. suggest_color_adjustments cvt ref_palette gen_palette = Inr (Success s) \<and>
           brightness s =
             (if \<bar>dL\<bar> \<le> 10 then 1 else max (1 / 2) (min (3 / 2) (1 + dL / 100))) \<and>
           tone_suggestion s =
             (if dL < - 10 then ''darker'' else if dL > 10 then ''lighter'' else ''neutral'')"
proof -
  have n: "dL = of_int (int (unat (fst (cvt ref_bg))) - int (unat (fst (cvt gen_bg))))"
    (is "dL = of_int ?n")
    unfolding dL by (rule chan0_lab_integer)
  have rnd: "py_round (1 + dL / 100) 2 = 1 + dL / 100"
    by (subst (1 2) n) (rule py_round_two_places)
  show ?thesis
    using ref gen rb gb dL [symmetric] rnd
    by (auto simp: suggest_color_adjustments_def Let_def)
qed

text \<open>An instance with \<open>dL = 100\<close>: the multiplier is clamped to 1.5.\<close>

theorem suggest_brightness_and_tone_witness:
  "suggest_color_adjustments (\<lambda>p. p)
     \<lparr>success = True, colors = [''#c8c8c8''],
        palette_details = Some [\<lparr>hex = ''#c8c8c8'', rgb = (200, 200, 200), frequency = 1\<rparr>],
        primary_background = ''#c8c8c8'', accent = Some ''#c8c8c8''\<rparr>
     \<lparr>success = True, colors = [''#646464''],
        palette_details = Some [\<lparr>hex = ''#646464'', rgb = (100, 100, 100), frequency = 1\<rparr>],
        primary_background = ''#646464'', accent = Some ''#646464''\<rparr> =
   Inr (Success \<lparr>brightness = 3 / 2, contrast = 1, saturate = 1,
                  tone_suggestion = ''lighter''\<rparr>)"
proof -
  let ?ref = "\<lparr>success = True, colors = [''#c8c8c8''],
        palette_details = Some [\<lparr>hex = ''#c8c8c8'', rgb = (200, 200, 200), frequency = 1\<rparr>],
        primary_background = ''#c8c8c8'', accent = Some ''#c8c8c8''\<rparr>"
  let ?gen = "\<lparr>success = True, colors = [''#646464''],
        palette_details = Some [\<lparr>hex = ''#646464'', rgb = (100, 100, 100), frequency = 1\<rparr>],
        primary_background = ''#646464'', accent = Some ''#646464''\<rparr>"
  let ?cvt = "\<lambda>p :: rgb8. p"
  have 1: "get_palette_details ?ref = \<lparr>hex = ''#c8c8c8'', rgb = (200, 200, 200), frequency = 1\<rparr> # []"
    and 2: "get_palette_details ?gen = \<lparr>hex = ''#646464'', rgb = (100, 100, 100), frequency = 1\<rparr> # []"
    by (simp_all add: get_palette_details_def)
  have 3: "uint8_pixel (rgb \<lparr>hex = ''#c8c8c8'', rgb = (200, 200, 200), frequency = 1\<rparr>) =
             Inr (200, 200, 200)"
    and 4: "uint8_pixel (rgb \<lparr>hex = ''#646464'', rgb = (100, 100, 100), frequency = 1\<rparr>) =
             Inr (100, 100, 100)"
    by (simp_all add: uint8_pixel_def as_uint8_def is_uint8_def)
  have 5: "(100 :: real) = chan 0 (rgb_to_lab ?cvt [(200, 200, 200)] ! 0) -
             chan 0 (rgb_to_lab ?cvt [(100, 100, 100)] ! 0)"
    by (simp add: rgb_to_lab_def astype_float_def chan_def)
  from suggest_brightness_and_tone [OF 1 2 3 4 5]
  obtain s where s: "suggest_color_adjustments ?cvt ?ref ?gen = Inr (Success s)"
    "brightness s = 3 / 2" "tone_suggestion s = ''lighter''"
    by auto
  have "np_std (rgb_values [\<lparr>hex = ''#646464'', rgb = (100, 100, 100), frequency = 1\<rparr>]) = 0"
    by (simp add: np_std_def np_mean_def rgb_values_def)
  then have "\<exists>b t. suggest_color_adjustments ?cvt ?ref ?gen =
          Inr (Success \<lparr>brightness = b, contrast = 1, saturate = 1, tone_suggestion = t\<rparr>)"
    by (simp add: suggest_color_adjustments_def get_palette_details_def uint8_pixel_def
        as_uint8_def is_uint8_def Let_def)
  with s show ?thesis
    by auto
qed

text \<open>
  Claim C8 as stated fails for a palette that has a colour but no
  \<^verbatim>\<open>palette_details\<close>: with the fallback palette of a two-pixel image as the
  generated palette, the result is the no-data failure, which has neither a
  brightness multiplier nor a tone.
\<close>

theorem suggest_no_brightness_for_fallback_palette:
  "extract_palette 0 (\<lambda>k px. Inl LibraryError) [(30, 60, 90), (30, 60, 90)] 6 True True =
     Inr \<lparr>success = True, colors = [''#1e3c5a''], palette_details = None,
          primary_background = ''#1e3c5a'', accent = None\<rparr> \<and>
   length (colors \<lparr>success = True, colors = [''#1e3c5a''], palette_details = None,
          primary_background = ''#1e3c5a'', accent = None\<rparr>) = 1 \<and>
   suggest_color_adjustments (\<lambda>p. p)
     \<lparr>success = True, colors = [''#c8c8c8''],
        palette_details = Some [\<lparr>hex = ''#c8c8c8'', rgb = (200, 200, 200), frequency = 1\<rparr>],
        primary_background = ''#c8c8c8'', accent = Some ''#c8c8c8''\<rparr>
     \<lparr>success = True, colors = [''#1e3c5a''], palette_details = None,
          primary_background = ''#1e3c5a'', accent = None\<rparr> =
     Inr (Failure ''No palette data available'')"
  by (simp add: palette_eval suggest_color_adjustments_def get_palette_details_def)

text \<open>
  Claim C3, as amended. \<^verbatim>\<open>suggest_color_adjustments\<close> returns the no-data
  failure if and only if one of the two palettes has no entry under
  \<^verbatim>\<open>palette_details\<close> (the key is absent or its list is empty); otherwise it
  returns a suggestion. The entries' RGB triples are 8-bit values, as those
  \<^verbatim>\<open>extract_palette\<close> builds from cluster centres.
\<close>

theorem suggest_fails_iff_no_details:
  assumes valid: "\<forall>c\<in>set (get_palette_details ref_palette) \<union>
                     set (get_palette_details gen_palette). valid_rgb (rgb c)"
  shows "if get_palette_details ref_palette = [] \<or> get_palette_details gen_palette = []
         then suggest_color_adjustments cvt ref_palette gen_palette =
                Inr (Failure ''No palette data available'')
         else \<exists>s. suggest_color_adjustments cvt ref_palette gen_palette = Inr (Success s)"
proof (cases "get_palette_details ref_palette = [] \<or> get_palette_details gen_palette = []")
  case True
  then show ?thesis
    by (auto simp: suggest_color_adjustments_def)
next
  case False
  then obtain r0 rs g0 gs where
    ref: "get_palette_details ref_palette = r0 # rs" and
    gen: "get_palette_details gen_palette = g0 # gs"
    by (auto simp: neq_Nil_conv)
  from valid ref gen have "valid_rgb (rgb r0)" "valid_rgb (rgb g0)"
    by simp_all
  then obtain ref_bg gen_bg where
    "uint8_pixel (rgb r0) = Inr ref_bg" "uint8_pixel (rgb g0) = Inr gen_bg"
    using uint8_pixel_valid_rgb by blast
  with ref gen show ?thesis
    by (simp add: suggest_color_adjustments_def Let_def)
qed

text \<open>Instances: two palettes with details give a suggestion; a palette without
  the key gives the failure.\<close>

theorem suggest_fails_iff_no_details_witness:
  "(\<exists>s. suggest_color_adjustments (\<lambda>p. p)
     \<lparr>success = True, colors = [''#c8c8c8''],
        palette_details = Some [\<lparr>hex = ''#c8c8c8'', rgb = (200, 200, 200), frequency = 1\<rparr>],
        primary_background = ''#c8c8c8'', accent = Some ''#c8c8c8''\<rparr>
     \<lparr>success = True, colors = [''#646464''],
        palette_details = Some [\<lparr>hex = ''#646464'', rgb = (100, 100, 100), frequency = 1\<rparr>],
        primary_background = ''#646464'', accent = Some ''#646464''\<rparr> = Inr (Success s)) \<and>
   suggest_color_adjustments (\<lambda>p. p)
     \<lparr>success = True, colors = [''#c8c8c8''],
        palette_details = Some [\<lparr>hex = ''#c8c8c8'', rgb = (200, 200, 200), frequency = 1\<rparr>],
        primary_background = ''#c8c8c8'', accent = Some ''#c8c8c8''\<rparr>
     \<lparr>success = True, colors = [''#646464''], palette_details = None,
        primary_background = ''#646464'', accent = None\<rparr> =
     Inr (Failure ''No palette data available'')"
proof -
  let ?ref = "\<lparr>success = True, colors = [''#c8c8c8''],
        palette_details = Some [\<lparr>hex = ''#c8c8c8'', rgb = (200, 200, 200), frequency = 1\<rparr>],
        primary_background = ''#c8c8c8'', accent = Some ''#c8c8c8''\<rparr>"
  let ?gen = "\<lparr>success = True, colors = [''#646464''],
        palette_details = Some [\<lparr>hex = ''#646464'', rgb = (100, 100, 100), frequency = 1\<rparr>],
        primary_background = ''#646464'', accent = Some ''#646464''\<rparr>"
  let ?fb = "\<lparr>success = True, colors = [''#646464''], palette_details = None,
        primary_background = ''#646464'', accent = None\<rparr>"
  let ?cvt = "\<lambda>p :: rgb8. p"
  have 1: "\<forall>c\<in>set (get_palette_details ?ref) \<union> set (get_palette_details ?gen). valid_rgb (rgb c)"
    by (simp add: get_palette_details_def valid_rgb_def is_uint8_def)
  have 2: "\<forall>c\<in>set (get_palette_details ?ref) \<union> set (get_palette_details ?fb). valid_rgb (rgb c)"
    by (simp add: get_palette_details_def valid_rgb_def is_uint8_def)
  from suggest_fails_iff_no_details [OF 1, of ?cvt] suggest_fails_iff_no_details [OF 2, of ?cvt]
  show ?thesis
    by (simp add: get_palette_details_def)
qed

text \<open>
  Claim C3 as stated fails on the palette of the fallback path of
  \<^verbatim>\<open>extract_palette\<close>: it has one colour but no \<^verbatim>\<open>palette_details\<close>, and
  \<^verbatim>\<open>palette.get("palette_details", [])\<close> makes the suggestion fail.
\<close>

theorem suggest_fails_on_fallback_palette:
  "extract_palette 0 (\<lambda>k px. Inl LibraryError) [(100, 150, 200)] 6 True True =
     Inr \<lparr>success = True, colors = [''#6496c8''], palette_details = None,
          primary_background = ''#6496c8'', accent = None\<rparr> \<and>
   length (colors \<lparr>success = True, colors = [''#6496c8''], palette_details = None,
          primary_background = ''#6496c8'', accent = None\<rparr>) = 1 \<and>
   suggest_color_adjustments (\<lambda>p. p)
     \<lparr>success = True, colors = [''#6496c8''], palette_details = None,
          primary_background = ''#6496c8'', accent = None\<rparr>
     \<lparr>success = True, colors = [''#6496c8''], palette_details = None,
          primary_background = ''#6496c8'', accent = None\<rparr> =
     Inr (Failure ''No palette data available'')"
  by (simp add: palette_eval suggest_color_adjustments_def get_palette_details_def)

section \<open>The fallback palette\<close>

text \<open>With at least one and fewer than \<open>k\<close> pixels left, the single entry is
  the mean of the remaining pixels, each channel truncated to an integer.\<close>

lemma extract_palette_fallback_mean:
  assumes "pixels = remaining_pixels img exclude_near_white exclude_near_black"
    and "pixels \<noteq> []" and "int (length pixels) < k"
    and "avg = trunc_pixel (sum_list (map fst pixels) / real (length pixels),
                            sum_list (map (fst \<circ> snd) pixels) / real (length pixels),
                            sum_list (map (snd \<circ> snd) pixels) / real (length pixels))"
  shows "extract_palette nan_int KMeans img k exclude_near_white exclude_near_black =
           Inr \<lparr>success = True, colors = [hexcolor avg], palette_details = None,
                primary_background = hexcolor avg, accent = None\<rparr>"
  using assms by (simp add: extract_palette_def mean_axis0_def astype_int_def Let_def)

section \<open>The fallback palette when no pixel is left\<close>

text \<open>
  Claim C1 at a one-pixel white image with the default flags and \<open>k = 6\<close>. No
  pixel remains, the mean of no pixels is NaN, and the single entry is
  formatted from the integers the cast of NaN gives: it is not the mean of
  any pixels, and with the x86-64 value of the cast it is not a colour code.
\<close>

theorem extract_palette_no_pixel_left:
  "remaining_pixels [(255, 255, 255)] True True = [] \<and>
   extract_palette nan_int KMeans [(255, 255, 255)] 6 True True =
     Inr \<lparr>success = True, colors = [hexcolor (nan_int, nan_int, nan_int)],
          palette_details = None,
          primary_background = hexcolor (nan_int, nan_int, nan_int), accent = None\<rparr> \<and>
   hexcolor (- (2 ^ 63), - (2 ^ 63), - (2 ^ 63)) =
     ''#-8000000000000000-8000000000000000-8000000000000000''"
  by (simp add: extract_palette_def remaining_pixels_def astype_float_def mean_axis0_def
      astype_int_def hexcolor_def fmt_02x_def hex_digits.simps hex_digit_def)

section \<open>The colour-space wrappers\<close>

text \<open>On an 8-bit image the two wrappers add nothing to OpenCV's conversions:
  the cast to float, the clip and the cast back are the identity on the LAB
  bytes. What a round trip does to a pixel is what \<open>cvt_back \<circ> cvt\<close> does.\<close>

lemma clip_uint8_of_byte: "clip_uint8 (real (unat b)) = b"
proof -
  define n where "n = unat b"
  have "n < 256"
    using unsigned_less [of b] by (simp add: n_def)
  then have "trunc (max 0 (min 255 (real n))) = int n"
    by (simp add: trunc_def min_def max_def)
  then have "clip_uint8 (real n) = word_of_int (int n)"
    by (simp add: clip_uint8_def)
  then show ?thesis
    by (simp add: n_def)
qed

lemma clip_uint8_unsigned: "clip_uint8 (unsigned b) = b"
  using clip_uint8_of_byte [of b] by simp

lemma lab_to_rgb_rgb_to_lab:
  "lab_to_rgb cvt_back (rgb_to_lab cvt img) = map (\<lambda>p. cvt_back (cvt p)) img"
proof -
  have "(case astype_float q of (l, a, b) \<Rightarrow> cvt_back (clip_uint8 l, clip_uint8 a, clip_uint8 b)) =
          cvt_back q" for q
    by (cases q) (simp add: astype_float_def clip_uint8_unsigned)
  then show ?thesis
    by (simp add: lab_to_rgb_def rgb_to_lab_def)
qed

section \<open>Properties of the colour transfer\<close>

lemma chan_set_chan:
  "i < 3 \<Longrightarrow> i' < 3 \<Longrightarrow> chan i (set_chan i' v p) = (if i = i' then v else chan i p)"
  by (cases p) (auto simp: chan_def set_chan_def)

lemma transfer_channel_length:
  "length result_lab = length source_lab \<Longrightarrow>
     length (transfer_channel source_lab sm ss tm ts result_lab i) = length source_lab"
  by (simp add: transfer_channel_def)

lemma transfer_channel_nth:
  assumes "length result_lab = length source_lab" "j < length source_lab"
  shows "transfer_channel source_lab sm ss tm ts result_lab i ! j =
           set_chan i ((chan i (source_lab ! j) - chan i sm) * (chan i ts / chan i ss) + chan i tm)
             (result_lab ! j)"
  using assms by (simp add: transfer_channel_def)

lemma np_std_nonneg: "0 \<le> np_std xs"
  unfolding np_std_def np_mean_def
  by (intro real_sqrt_ge_zero divide_nonneg_nonneg sum_list_nonneg) auto

lemma chan_floor_std:
  "i < 3 \<Longrightarrow> chan i (floor_std s) = (if chan i s < 1 / 10 ^ 6 then 1 else chan i s)"
  by (cases s) (auto simp: chan_def floor_std_def)

lemma reinhard_lab_chan:
  assumes j: "j < length source_lab" and i: "i < 3"
  shows "chan i (reinhard_lab preserve_luminance source_lab target_lab ! j) =
           (if preserve_luminance \<and> i = 0 then chan 0 (source_lab ! j)
            else (chan i (source_lab ! j) - chan i (mean_axis01 source_lab)) *
                   (chan i (std_axis01 target_lab) / chan i (floor_std (std_axis01 source_lab))) +
                 chan i (mean_axis01 target_lab))"
proof -
  from i have "i = 0 \<or> i = 1 \<or> i = 2" by auto
  then show ?thesis
    using j
    by (auto simp: reinhard_lab_def Let_def transfer_channel_nth transfer_channel_length
        chan_set_chan)
qed

lemma reinhard_lab_length:
  "length (reinhard_lab preserve_luminance source_lab target_lab) = length source_lab"
  by (simp add: reinhard_lab_def Let_def transfer_channel_length)

lemma lab_to_rgb_nth:
  "j < length lab \<Longrightarrow>
     lab_to_rgb cvt_back lab ! j =
       cvt_back (clip_uint8 (chan 0 (lab ! j)), clip_uint8 (chan 1 (lab ! j)),
                 clip_uint8 (chan 2 (lab ! j)))"
  by (cases "lab ! j") (simp add: lab_to_rgb_def chan_def)

lemma clip_uint8_clamps: "unat (clip_uint8 x) = nat (trunc (max 0 (min 255 x)))"
proof -
  have "0 \<le> trunc (max 0 (min 255 x))" "trunc (max 0 (min 255 x)) < 256"
    by (auto simp: trunc_def min_def max_def floor_less_iff)
  then show ?thesis
    by (simp add: clip_uint8_def unat_eq_nat_uint uint_word_of_int take_bit_int_eq_self)
qed

text \<open>
  Claim C4. For every source and target image, every pixel \<open>j\<close> and every
  channel \<open>i\<close>: a transferred channel (all three, or only channels 1 and 2 when
  \<^verbatim>\<open>preserve_luminance\<close> is set, channel 0 then keeping the source value) is
  \<open>(source[i] - sourceMean[i]) * (targetStd[i] / sourceStd[i]) + targetMean[i]\<close>,
  where a source standard deviation below \<open>10\<^sup>-\<^sup>6\<close> is replaced by 1, so the
  divisor is positive; the result is clamped to \<open>[0, 255]\<close> and truncated to
  \<^verbatim>\<open>uint8\<close> before the conversion back to RGB.
\<close>

theorem reinhard_transfer_per_pixel:
  assumes j: "j < length source_img" and i: "i < 3"
    and src: "source_lab = rgb_to_lab cvt source_img"
    and tgt: "target_lab = rgb_to_lab cvt target_img"
    and std: "source_std = floor_std (std_axis01 source_lab)"
    and res: "result_lab = reinhard_lab preserve_luminance source_lab target_lab"
  shows "chan i (result_lab ! j) =
           (if preserve_luminance \<and> i = 0 then chan 0 (source_lab ! j)
            else (chan i (source_lab ! j) - chan i (mean_axis01 source_lab)) *
                   (chan i (std_axis01 target_lab) / chan i source_std) +
                 chan i (mean_axis01 target_lab)) \<and>
         chan i source_std =
           (if chan i (std_axis01 source_lab) < 1 / 10 ^ 6 then 1
            else chan i (std_axis01 source_lab)) \<and>
         0 < chan i source_std \<and>
         result_rgb (reinhard_color_transfer cvt cvt_back source_img target_img
                       preserve_luminance) ! j =
           cvt_back (clip_uint8 (chan 0 (result_lab ! j)), clip_uint8 (chan 1 (result_lab ! j)),
                     clip_uint8 (chan 2 (result_lab ! j))) \<and>
         unat (clip_uint8 (chan i (result_lab ! j))) =
           nat (trunc (max 0 (min 255 (chan i (result_lab ! j)))))"
proof -
  have len: "j < length source_lab"
    using j by (simp add: src rgb_to_lab_def)
  have 1: "chan i (result_lab ! j) =
           (if preserve_luminance \<and> i = 0 then chan 0 (source_lab ! j)
            else (chan i (source_lab ! j) - chan i (mean_axis01 source_lab)) *
                   (chan i (std_axis01 target_lab) / chan i source_std) +
                 chan i (mean_axis01 target_lab))"
    unfolding res std using len i by (rule reinhard_lab_chan)
  have 2: "chan i source_std =
           (if chan i (std_axis01 source_lab) < 1 / 10 ^ 6 then 1
            else chan i (std_axis01 source_lab))"
    unfolding std using i by (rule chan_floor_std)
  have 3: "0 < chan i source_std"
    unfolding 2 by (simp add: not_less)
  have 4: "result_rgb (reinhard_color_transfer cvt cvt_back source_img target_img
                       preserve_luminance) ! j =
           cvt_back (clip_uint8 (chan 0 (result_lab ! j)), clip_uint8 (chan 1 (result_lab ! j)),
                     clip_uint8 (chan 2 (result_lab ! j)))"
    using len
    by (simp add: reinhard_color_transfer_def Let_def src tgt res lab_to_rgb_nth
        reinhard_lab_length)
  show ?thesis
    using 1 2 3 4 clip_uint8_clamps by blast
qed

text \<open>An instance: two pixels whose L channel has mean 12 and deviation 2, moved
  to mean 102 and deviation 2.\<close>

theorem reinhard_transfer_per_pixel_witness:
  "chan 0 (reinhard_lab False (rgb_to_lab (\<lambda>p. p) [(10, 20, 30), (14, 20, 30)])
             (rgb_to_lab (\<lambda>p. p) [(100, 50, 60), (104, 50, 60)]) ! 0) = 100 \<and>
   chan 0 (floor_std (std_axis01 (rgb_to_lab (\<lambda>p. p) [(10, 20, 30), (14, 20, 30)]))) = 2 \<and>
   unat (clip_uint8 (chan 0 (reinhard_lab False (rgb_to_lab (\<lambda>p. p) [(10, 20, 30), (14, 20, 30)])
             (rgb_to_lab (\<lambda>p. p) [(100, 50, 60), (104, 50, 60)]) ! 0))) = 100"
proof -
  let ?src = "[(10, 20, 30), (14, 20, 30)] :: rgb8 list"
  let ?tgt = "[(100, 50, 60), (104, 50, 60)] :: rgb8 list"
  let ?cvt = "\<lambda>p :: rgb8. p"
  have j: "0 < length ?src" and i: "(0 :: nat) < 3"
    by simp_all
  have s0: "np_std [10, 14] = 2" and s1: "np_std [100, 104] = 2"
    by (simp_all add: np_std_def np_mean_def)
  have m0: "np_mean [10, 14] = 12" and m1: "np_mean [100, 104] = 102"
    by (simp_all add: np_mean_def)
  have v: "chan 0 (rgb_to_lab ?cvt ?src ! 0) = 10"
    "chan 0 (mean_axis01 (rgb_to_lab ?cvt ?src)) = 12"
    "chan 0 (std_axis01 (rgb_to_lab ?cvt ?src)) = 2"
    "chan 0 (std_axis01 (rgb_to_lab ?cvt ?tgt)) = 2"
    "chan 0 (mean_axis01 (rgb_to_lab ?cvt ?tgt)) = 102"
    by (simp_all add: rgb_to_lab_def astype_float_def chan_def mean_axis01_def std_axis01_def
        s0 s1 m0 m1)
  from reinhard_transfer_per_pixel [where cvt = ?cvt and source_img = ?src and
      target_img = ?tgt and preserve_luminance = False and cvt_back = ?cvt and j = 0 and i = 0,
      OF j i refl refl refl refl]
  show ?thesis
    by (simp add: v clip_uint8_clamps trunc_def)
qed

section \<open>Properties of the normalisation\<close>

text \<open>The rounding to binary64 has a relative error of at most \<open>2\<^sup>-\<^sup>5\<^sup>3\<close>, which is
  too small to move the truncated product across an integer when the exact
  quotient is not one.\<close>

lemma binade_bounds:
  assumes "0 < x"
  shows "2 powi (binade x) \<le> x \<and> x < 2 powi (binade x + 1)"
proof (cases "1 \<le> x")
  case True
  define n where "n = nat \<lfloor>x\<rfloor>"
  define L where "L = floorlog 2 n"
  have n1: "1 \<le> n" using True by (simp add: n_def le_nat_iff le_floor_iff)
  then have b: "2 ^ (L - 1) \<le> n" "n < 2 ^ L"
    using floorlog_bounds [of n 2] by (simp_all add: L_def)
  have L1: "1 \<le> L"
    using n1 floorlog_eq_zero_iff [of 2 n] by (simp add: L_def Suc_le_eq)
  have e: "binade x = int (L - 1)"
    using True L1 by (simp add: binade_def n_def L_def of_nat_diff)
  have nx: "real n \<le> x" "x < real n + 1"
    using True by (simp_all add: n_def)
  have "(2 :: real) ^ (L - 1) \<le> real n"
    using b(1) by (metis of_nat_le_iff of_nat_numeral of_nat_power)
  moreover have "real n + 1 \<le> 2 ^ L"
  proof -
    have "n + 1 \<le> 2 ^ L" using b(2) by simp
    then show ?thesis by (metis of_nat_le_iff of_nat_numeral of_nat_power of_nat_Suc Suc_eq_plus1 of_nat_add of_nat_1)
  qed
  moreover have "2 powi (binade x) = (2 :: real) ^ (L - 1)"
    unfolding e by (rule power_int_of_nat)
  moreover have "2 powi (binade x + 1) = (2 :: real) ^ L"
  proof -
    have "binade x + 1 = int L" using e L1 by simp
    then show ?thesis by (simp only: power_int_of_nat)
  qed
  ultimately show ?thesis
    using nx by linarith
next
  case False
  define c where "c = \<lceil>1 / x\<rceil>"
  define n where "n = nat (c - 1)"
  define L where "L = floorlog 2 n"
  have x1: "1 < 1 / x" using assms False by simp
  then have c2: "2 \<le> c" unfolding c_def by linarith
  then have n1: "1 \<le> n" by (simp add: n_def)
  then have b: "2 ^ (L - 1) \<le> n" "n < 2 ^ L"
    using floorlog_bounds [of n 2] by (simp_all add: L_def)
  have L1: "1 \<le> L"
    using n1 floorlog_eq_zero_iff [of 2 n] by (simp add: L_def Suc_le_eq)
  have e: "binade x = - int L"
    using False by (simp add: binade_def n_def L_def c_def)
  have cx: "1 / x \<le> real n + 1" "real n < 1 / x"
    using c2 unfolding n_def c_def by (simp_all) linarith+
  have p1: "(2 :: real) ^ (L - 1) \<le> real n"
    using b(1) by (metis of_nat_le_iff of_nat_numeral of_nat_power)
  have p2: "real n + 1 \<le> 2 ^ L"
  proof -
    have "n + 1 \<le> 2 ^ L" using b(2) by simp
    then show ?thesis by (metis of_nat_le_iff of_nat_numeral of_nat_power of_nat_Suc Suc_eq_plus1 of_nat_add of_nat_1)
  qed
  have lo: "1 / x \<le> 2 ^ L" using cx(1) p2 by linarith
  have hi: "(2 :: real) ^ (L - 1) < 1 / x" using cx(2) p1 by linarith
  have "1 / 2 ^ L \<le> x"
    using lo assms by (simp add: field_simps)
  moreover have "x < 1 / 2 ^ (L - 1)"
    using hi assms by (simp add: field_simps)
  moreover have "2 powi (binade x) = 1 / (2 :: real) ^ L"
    unfolding e by (simp only: power_int_minus_divide power_int_of_nat)
  moreover have "2 powi (binade x + 1) = 1 / (2 :: real) ^ (L - 1)"
  proof -
    have "binade x + 1 = - int (L - 1)" using e L1 by simp
    then show ?thesis by (simp only: power_int_minus_divide power_int_of_nat)
  qed
  ultimately show ?thesis
    by linarith
qed


lemma binade_eqI:
  assumes "0 < x" "2 powi e \<le> x" "x < 2 powi (e + 1)"
  shows "binade x = e"
proof (rule ccontr)
  assume ne: "binade x \<noteq> e"
  note b = binade_bounds [OF assms(1)]
  show False
  proof (cases "binade x < e")
    case True
    then have "(2 :: real) powi (binade x + 1) \<le> 2 powi e"
      by (intro power_int_increasing) simp_all
    with b assms(2) show False by linarith
  next
    case False
    with ne have "(2 :: real) powi (e + 1) \<le> 2 powi (binade x)"
      by (intro power_int_increasing) simp_all
    with b assms(3) show False by linarith
  qed
qed

lemma round_half_even_error:
  fixes y :: real
  shows "\<bar>of_int (round_half_even y) - y\<bar> \<le> 1 / 2"
proof -
  have "of_int \<lfloor>y\<rfloor> \<le> y" "y < of_int \<lfloor>y\<rfloor> + 1"
    by linarith+
  then show ?thesis
    by (auto simp: round_half_even_def Let_def)
qed

lemma round_half_even_nearest:
  fixes y :: real
  assumes "of_int m - 1 / 2 < y" "y < of_int m + 1 / 2"
  shows "round_half_even y = m"
proof -
  have "\<lfloor>y\<rfloor> = m \<or> \<lfloor>y\<rfloor> = m - 1"
    using assms by linarith
  then show ?thesis
  proof
    assume f: "\<lfloor>y\<rfloor> = m"
    with assms show ?thesis
      by (simp add: round_half_even_def Let_def)
  next
    assume f: "\<lfloor>y\<rfloor> = m - 1"
    with assms show ?thesis
      by (simp add: round_half_even_def Let_def)
  qed
qed

lemma binary64_pos:
  assumes "0 < x"
  shows "binary64 x =
           of_int (round_half_even (x * 2 powi (52 - binade x))) * 2 powi (binade x - 52)"
  using assms by (simp add: binary64_def)

lemma binary64_eqI:
  assumes "0 < x" "2 powi e \<le> x" "x < 2 powi (e + 1)"
    and "round_half_even (x * 2 powi (52 - e)) = m"
  shows "binary64 x = of_int m * 2 powi (e - 52)"
  using assms binade_eqI [OF assms(1-3)] by (simp add: binary64_pos)

lemma binary64_error:
  assumes "0 < x"
  shows "\<bar>binary64 x - x\<bar> \<le> x / 2 ^ 53"
proof -
  define e where "e = binade x"
  define y where "y = x * 2 powi (52 - e)"
  have b: "2 powi e \<le> x"
    using binade_bounds [OF assms] by (simp add: e_def)
  have xy: "x = y * 2 powi (e - 52)"
    by (simp add: y_def power_int_diff field_simps)
  have "binary64 x - x = (of_int (round_half_even y) - y) * 2 powi (e - 52)"
    using assms by (subst (2) xy) (simp add: binary64_pos e_def y_def algebra_simps)
  then have "\<bar>binary64 x - x\<bar> = \<bar>of_int (round_half_even y) - y\<bar> * 2 powi (e - 52)"
    by (simp add: abs_mult)
  also have "\<dots> \<le> 1 / 2 * 2 powi (e - 52)"
    by (intro mult_right_mono round_half_even_error) simp
  also have "\<dots> = 2 powi e / 2 ^ 53"
    by (simp add: power_int_diff)
  also have "\<dots> \<le> x / 2 ^ 53"
    using b by (simp add: divide_right_mono)
  finally show ?thesis .
qed


lemma binary64_interval:
  assumes "0 < x"
  shows "x * (1 - 1 / 2 ^ 53) \<le> binary64 x \<and> binary64 x \<le> x * (1 + 1 / 2 ^ 53)"
proof -
  have "\<bar>binary64 x - x\<bar> \<le> x * (1 / 2 ^ 53)"
    using binary64_error [OF assms] by simp
  then have "binary64 x - x \<le> x * (1 / 2 ^ 53)" "x - binary64 x \<le> x * (1 / 2 ^ 53)"
    by linarith+
  then show ?thesis
    by (simp only: right_diff_distrib distrib_left mult_1_right) linarith
qed

lemma new_height_scaled:
  assumes w: "0 < w" and h: "0 < h" and W: "0 < W" and bound: "h * W \<le> 2 ^ 50"
  shows "\<exists>p :: real. new_height h w W = \<lfloor>p\<rfloor> \<and>
           of_int (h * W) - 1 / 4 \<le> p * of_int w \<and> p * of_int w \<le> of_int (h * W) + 3 / 8"
proof -
  define eps :: real where "eps = 1 / 2 ^ 53"
  define q :: real where "q = of_int W / of_int w"
  define r where "r = binary64 q"
  define t where "t = of_int h * r"
  define p where "p = binary64 t"
  define A :: real where "A = of_int (h * W)"
  have eps: "0 < eps" "eps < 1" "(1 + eps) * (1 + eps) \<le> 1 + 3 * eps"
    "1 - 2 * eps \<le> (1 - eps) * (1 - eps)"
    by (simp_all add: eps_def algebra_simps)
  have A: "0 < A" "A \<le> 2 ^ 50"
  proof -
    show "0 < A" using h W by (simp add: A_def)
    have "real_of_int (h * W) \<le> real_of_int (2 ^ 50)"
      using bound by (simp only: of_int_le_iff)
    then show "A \<le> 2 ^ 50" by (simp add: A_def)
  qed
  have q: "0 < q" "q * of_int w = of_int W"
    using w W by (simp_all add: q_def)
  have r: "q * (1 - eps) \<le> r" "r \<le> q * (1 + eps)"
    using binary64_interval [OF q(1)] by (simp_all add: r_def eps_def)
  have r0: "0 < r"
  proof -
    have "0 < q * (1 - eps)" using q(1) eps by simp
    with r(1) show ?thesis by linarith
  qed
  have t0: "0 < t" using r0 h by (simp add: t_def)
  have p: "t * (1 - eps) \<le> p" "p \<le> t * (1 + eps)"
    using binary64_interval [OF t0] by (simp_all add: p_def eps_def)
  have p0: "0 \<le> p"
  proof -
    have "0 \<le> t * (1 - eps)" using t0 eps by simp
    with p(1) show ?thesis by linarith
  qed
  have wr: "0 < real_of_int w" "0 < real_of_int h" using w h by simp_all
  have tw_hi: "t * of_int w \<le> A * (1 + eps)"
  proof -
    have "r * of_int w \<le> q * (1 + eps) * of_int w"
      using r(2) wr by (intro mult_right_mono) simp_all
    also have "\<dots> = of_int W * (1 + eps)"
      using q(2) by (simp add: algebra_simps)
    finally have "of_int h * (r * of_int w) \<le> of_int h * (of_int W * (1 + eps))"
      using wr by (intro mult_left_mono) simp_all
    then show ?thesis by (simp add: t_def A_def algebra_simps)
  qed
  have tw_lo: "A * (1 - eps) \<le> t * of_int w"
  proof -
    have "q * (1 - eps) * of_int w \<le> r * of_int w"
      using r(1) wr by (intro mult_right_mono) simp_all
    moreover have "q * (1 - eps) * of_int w = of_int W * (1 - eps)"
      using q(2) by (simp add: algebra_simps)
    ultimately have "of_int h * (of_int W * (1 - eps)) \<le> of_int h * (r * of_int w)"
      using wr by (intro mult_left_mono) simp_all
    then show ?thesis by (simp add: t_def A_def algebra_simps)
  qed
  have hi: "p * of_int w \<le> A + 3 / 8"
  proof -
    have "p * of_int w \<le> t * (1 + eps) * of_int w"
      using p(2) wr by (intro mult_right_mono) simp_all
    also have "\<dots> = t * of_int w * (1 + eps)" by (simp add: algebra_simps)
    also have "\<dots> \<le> A * (1 + eps) * (1 + eps)"
      using tw_hi eps by (intro mult_right_mono) simp_all
    also have "\<dots> = A * ((1 + eps) * (1 + eps))" by (simp add: algebra_simps)
    also have "\<dots> \<le> A * (1 + 3 * eps)"
      using eps(3) A(1) by (intro mult_left_mono) simp_all
    also have "\<dots> = A + A * (3 * eps)" by (simp add: algebra_simps)
    also have "\<dots> \<le> A + 2 ^ 50 * (3 * eps)"
      using A(2) eps(1) by (intro add_left_mono mult_right_mono) simp_all
    also have "\<dots> = A + 3 / 8" by (simp add: eps_def)
    finally show ?thesis .
  qed
  have lo: "A - 1 / 4 \<le> p * of_int w"
  proof -
    have "A - 1 / 4 = A - 2 ^ 50 * (2 * eps)" by (simp add: eps_def)
    also have "\<dots> \<le> A - A * (2 * eps)"
      using A(2) eps(1) by (intro diff_left_mono mult_right_mono) simp_all
    also have "\<dots> = A * (1 - 2 * eps)" by (simp add: algebra_simps)
    also have "\<dots> \<le> A * ((1 - eps) * (1 - eps))"
      using eps(4) A(1) by (intro mult_left_mono) simp_all
    also have "\<dots> = A * (1 - eps) * (1 - eps)" by (simp add: algebra_simps)
    also have "\<dots> \<le> t * of_int w * (1 - eps)"
      using tw_lo eps by (intro mult_right_mono) simp_all
    also have "\<dots> = t * (1 - eps) * of_int w" by (simp add: algebra_simps)
    also have "\<dots> \<le> p * of_int w"
      using p(1) wr by (intro mult_right_mono) simp_all
    finally show ?thesis .
  qed
  have "new_height h w W = \<lfloor>p\<rfloor>"
    using p0 by (simp add: new_height_def Let_def trunc_def p_def t_def r_def q_def)
  with lo hi show ?thesis
    unfolding A_def by blast
qed


lemma new_height_bounds:
  assumes w: "0 < w" and h: "0 < h" and W: "0 < W" and bound: "h * W \<le> 2 ^ 50"
  shows "(h * W) div w - 1 \<le> new_height h w W \<and> new_height h w W \<le> (h * W) div w \<and>
         (\<not> w dvd h * W \<longrightarrow> new_height h w W = (h * W) div w)"
proof -
  define N where "N = (h * W) div w"
  define m where "m = (h * W) mod w"
  from new_height_scaled [OF assms] obtain p :: real where
    nh: "new_height h w W = \<lfloor>p\<rfloor>" and
    lo: "of_int (h * W) - 1 / 4 \<le> p * of_int w" and
    hi: "p * of_int w \<le> of_int (h * W) + 3 / 8"
    by blast
  have m: "0 \<le> m" "m \<le> w - 1"
    using w by (simp_all add: m_def) 
  have "h * W = N * w + m"
    by (simp add: N_def m_def)
  then have A: "real_of_int (h * W) = of_int N * of_int w + of_int m"
    by (metis of_int_add of_int_mult)
  have wr: "1 \<le> real_of_int w" using w by simp
  have mr: "0 \<le> real_of_int m" "real_of_int m \<le> real_of_int w - 1"
    using m by (simp_all add: of_int_le_iff [symmetric] del: of_int_le_iff) 
  have "p * of_int w < (of_int N + 1) * of_int w"
    using hi A mr by (simp add: algebra_simps)
  then have up: "p < of_int N + 1"
    using wr by (simp add: mult_less_cancel_right_pos)
  have "(of_int N - 1) * of_int w < p * of_int w"
    using lo A mr wr by (simp add: algebra_simps)
  then have low: "of_int N - 1 < p"
    using wr by (simp add: mult_less_cancel_right_pos)
  have exact: "of_int N \<le> p" if "\<not> w dvd h * W"
  proof -
    from that have "m \<noteq> 0" by (simp add: m_def dvd_eq_mod_eq_0)
    with m have "1 \<le> m" by simp
    then have "1 \<le> real_of_int m" by simp
    with lo A have "of_int N * of_int w < p * of_int w"
      by (simp add: algebra_simps)
    then show ?thesis
      using wr by (simp add: mult_less_cancel_right_pos)
  qed
  have 1: "\<lfloor>p\<rfloor> \<le> N" using up by linarith
  have 2: "N - 1 \<le> \<lfloor>p\<rfloor>" using low by linarith
  have 3: "\<lfloor>p\<rfloor> = N" if "\<not> w dvd h * W"
    using exact [OF that] up by linarith
  from 1 2 3 show ?thesis
    by (simp add: nh N_def)
qed

text \<open>Two evaluations of the arithmetic: a 49 by 49 image at width 1, and the
  scenario of the specification, a 2000 by 1000 image at width 1200, whose
  height is 600.\<close>

lemma new_height_49:
  "new_height 49 49 1 = 0"
proof -
  have r: "round_half_even ((1 / 49 :: real) * 2 powi (52 - (- 6))) = 5882252574524729"
    by (rule round_half_even_nearest) simp_all
  have b1: "binary64 (1 / 49) = of_int 5882252574524729 * 2 powi (- 6 - 52)"
    by (rule binary64_eqI [OF _ _ _ r]) simp_all
  define t :: real where "t = 49 * (of_int 5882252574524729 * 2 powi (- 6 - 52))"
  have t: "t = 288230376151711721 / 288230376151711744"
    by (simp add: t_def)
  have r2: "round_half_even (t * 2 powi (52 - (- 1))) = 9007199254740991"
    unfolding t by (rule round_half_even_nearest) simp_all
  have b2: "binary64 t = of_int 9007199254740991 * 2 powi (- 1 - 52)"
    by (rule binary64_eqI [OF _ _ _ r2]) (simp_all add: t)
  have "new_height 49 49 1 = trunc (binary64 (49 * binary64 (1 / 49)))"
    by (simp add: new_height_def)
  also have "\<dots> = trunc (binary64 t)"
    by (simp only: b1 t_def)
  also have "\<dots> = 0"
    by (simp add: b2 trunc_def)
  finally show ?thesis .
qed

lemma new_height_2000_1000:
  "new_height 1000 2000 1200 = 600"
proof -
  have r: "round_half_even ((3 / 5 :: real) * 2 powi (52 - (- 1))) = 5404319552844595"
    by (rule round_half_even_nearest) simp_all
  have b1: "binary64 (3 / 5) = of_int 5404319552844595 * 2 powi (- 1 - 52)"
    by (rule binary64_eqI [OF _ _ _ r]) simp_all
  define t :: real where "t = 1000 * (of_int 5404319552844595 * 2 powi (- 1 - 52))"
  have t: "t = 675539944105574375 / 1125899906842624"
    by (simp add: t_def)
  have r2: "round_half_even (t * 2 powi (52 - 9)) = 5277655813324800"
    unfolding t by (rule round_half_even_nearest) simp_all
  have b2: "binary64 t = of_int 5277655813324800 * 2 powi (9 - 52)"
    by (rule binary64_eqI [OF _ _ _ r2]) (simp_all add: t)
  have "new_height 1000 2000 1200 = trunc (binary64 (1000 * binary64 (3 / 5)))"
    by (simp add: new_height_def)
  also have "\<dots> = trunc (binary64 t)"
    by (simp only: b1 t_def)
  also have "\<dots> = 600"
    by (simp add: b2 trunc_def)
  finally show ?thesis .
qed

lemma normalize_2000_1000:
  "load_and_normalize (\<lambda>i. i) \<lparr>width = 2000, height = 1000, mode = ''RGB''\<rparr> 1200 False True =
     Inr \<lparr>width = 1200, height = 600, mode = ''RGB''\<rparr>"
  by (simp add: load_and_normalize_def convert_to_rgb_def pil_resize_def new_height_2000_1000)

text \<open>
  Claim C2, as amended. For a decoded (and possibly converted and
  auto-cropped) image of width \<open>w\<close> and height \<open>h\<close> and a target width \<open>W\<close>,
  all positive with \<open>h * W \<le> 2\<^sup>5\<^sup>0\<close>: when \<open>w = W\<close> the image is returned as it
  is; when \<open>w\<close> does not divide \<open>h * W\<close> and \<open>w \<le> h * W\<close>, the output has
  width exactly \<open>W\<close> and height the floor of \<open>h * W / w\<close>: \<^verbatim>\<open>int()\<close> truncates
  the quotient, it does not round it.
\<close>

theorem normalize_output_size:
  assumes img': "img' = (let i = (if convert_srgb then convert_to_rgb img else img)
                         in if auto_crop then auto_crop_content i else i)"
    and w: "0 < width img'" and h: "0 < height img'" and W: "0 < target_width"
    and bound: "height img' * target_width \<le> 2 ^ 50"
  shows "(width img' = target_width \<longrightarrow>
            load_and_normalize auto_crop_content img target_width auto_crop convert_srgb =
              Inr img') \<and>
         (\<not> width img' dvd height img' * target_width \<and>
          width img' \<le> height img' * target_width \<longrightarrow>
            load_and_normalize auto_crop_content img target_width auto_crop convert_srgb =
              Inr (img'\<lparr>width := target_width,
                        height := (height img' * target_width) div width img'\<rparr>))"
proof (intro conjI impI)
  assume "width img' = target_width"
  then show "load_and_normalize auto_crop_content img target_width auto_crop convert_srgb =
               Inr img'"
    by (simp add: load_and_normalize_def img' Let_def)
next
  assume a: "\<not> width img' dvd height img' * target_width \<and>
             width img' \<le> height img' * target_width"
  then have ne: "width img' \<noteq> target_width"
    by auto
  from a new_height_bounds [OF w h W bound]
  have nh: "new_height (height img') (width img') target_width =
              (height img' * target_width) div width img'"
    by blast
  have "0 < (height img' * target_width) div width img'"
    using a w pos_imp_zdiv_pos_iff [of "width img'" "height img' * target_width"] by blast
  then have "1 \<le> (height img' * target_width) div width img'"
    by linarith
  with nh ne W
  show "load_and_normalize auto_crop_content img target_width auto_crop convert_srgb =
          Inr (img'\<lparr>width := target_width,
                    height := (height img' * target_width) div width img'\<rparr>)"
    using img' by (auto simp: load_and_normalize_def Let_def pil_resize_def)
qed

text \<open>An instance: a 1366 by 768 image at width 1200 gets height 674, the floor of
  674.67.\<close>

theorem normalize_output_size_witness:
  "load_and_normalize (\<lambda>i. i) \<lparr>width = 1366, height = 768, mode = ''RGB''\<rparr> 1200 False True =
     Inr \<lparr>width = 1200, height = 674, mode = ''RGB''\<rparr> \<and>
   (768 * 1200) div 1366 = (674 :: int)"
proof -
  let ?img = "\<lparr>width = 1366, height = 768, mode = ''RGB''\<rparr>"
  have 1: "?img = (let i = (if True then convert_to_rgb ?img else ?img)
                   in if False then (\<lambda>i. i) i else i)"
    by (simp add: convert_to_rgb_def)
  have 2: "0 < width ?img" "0 < height ?img" "0 < (1200 :: int)"
    "height ?img * 1200 \<le> 2 ^ 50"
    by simp_all
  from normalize_output_size [OF 1 2] show ?thesis
    by simp
qed

text \<open>
  Claim C2 as stated fails: a 1000 by 999 image at width 1200 gets height
  1198, while \<open>999 * 1200 / 1000 = 1198.8\<close> rounds to 1199.
\<close>

theorem normalize_truncates_height:
  "load_and_normalize (\<lambda>i. i) \<lparr>width = 1000, height = 999, mode = ''RGB''\<rparr> 1200 False True =
     Inr \<lparr>width = 1200, height = 1198, mode = ''RGB''\<rparr> \<and>
   round_half_even (999 * 1200 / 1000 :: real) = 1199"
proof -
  have "new_height 999 1000 1200 = 1198"
    using new_height_bounds [of 1000 999 1200] by simp
  moreover have "round_half_even (999 * 1200 / 1000 :: real) = 1199"
    by (rule round_half_even_nearest) simp_all
  ultimately show ?thesis
    by (simp add: load_and_normalize_def convert_to_rgb_def pil_resize_def)
qed

end
